theory Spec2Isabelle
  imports
    Main
    "HOL-Library.Word"
    "HOL-Library.Char_ord"
    "HOL-Library.List_Lexorder"
begin

unbundle bit_operations_syntax

section \<open>Zone configuration for dynamic provisioning (openhouse2017/util-after.go)\<close>

text \<open>
  A shallow embedding of the zone and region resolver of \<^verbatim>\<open>util-after.go\<close>:
  \<^verbatim>\<open>ChooseZoneForVolume\<close>, \<^verbatim>\<open>zonesToSet\<close>, \<^verbatim>\<open>validatePVCSelector\<close>,
  \<^verbatim>\<open>getPVCMatchLabel\<close>, \<^verbatim>\<open>getPVCMatchExpression\<close> and the methods of
  \<^verbatim>\<open>ZonesConf\<close>.

  Go strings are byte sequences: \<^typ>\<open>string\<close>. A \<^verbatim>\<open>sets.String\<close> is a
  \<^typ>\<open>string set\<close>; a nil set and an empty set read alike (\<^verbatim>\<open>len\<close>, \<^verbatim>\<open>range\<close>,
  \<^verbatim>\<open>Has\<close>), so both are \<^term>\<open>{} :: string set\<close>. \<^verbatim>\<open>Intersection\<close>, \<^verbatim>\<open>Union\<close>
  and \<^verbatim>\<open>Difference\<close> return fresh sets, and \<^verbatim>\<open>Insert\<close> is only applied to sets
  the resolver has just made, so value semantics is enough.
\<close>

subsection \<open>Errors\<close>

text \<open>
  One constructor for every \<^verbatim>\<open>fmt.Errorf\<close> of the file, with the values it formats;
  \<open>External\<close> is an error value produced by an injected function, and
  \<open>DivideByZero\<close> the run-time panic of \<^verbatim>\<open>%\<close> with a zero divisor.
\<close>

datatype error =
    External string
  | BothZoneAndZones
  | EmptyZone string
  | StorageClassError error
  | LabelKeyNotPermitted string
  | ExprKeyNotPermitted string
  | OperatorNotPermitted string
  | NoValues string string
  | MissingMatchLabels
  | LabelKeyNotFound string
  | MissingMatchExpressions
  | EmptyMatchExpressions
  | OperatorNotFound string string
  | ZoneToRegionFailed string error
  | CannotSatisfy
  | DivideByZero

subsection \<open>The Go library functions the file calls\<close>

text \<open>\<^verbatim>\<open>strings.LastIndexByte(s, c)\<close>: the index of the last \<open>c\<close> in \<open>s\<close>, or -1.\<close>

fun LastIndexByte :: "string \<Rightarrow> char \<Rightarrow> int" where
  "LastIndexByte [] c = -1"
| "LastIndexByte (x # xs) c =
     (let i = LastIndexByte xs c
      in if i \<noteq> -1 then i + 1 else if x = c then 0 else -1)"

text \<open>
  \<^verbatim>\<open>strconv.ParseUint(s, 10, 32)\<close>: a syntax error on the empty string and on any
  byte that is not a decimal digit (no sign is accepted), a range error as soon as the
  value exceeds \<open>2^32 - 1\<close>. \<open>None\<close> is \<^verbatim>\<open>err != nil\<close>.
\<close>

definition isDigit :: "char \<Rightarrow> bool" where
  "isDigit d = (of_char (CHR ''0'') \<le> (of_char d :: int) \<and> (of_char d :: int) \<le> of_char (CHR ''9''))"

fun parseDigits :: "string \<Rightarrow> int \<Rightarrow> int option" where
  "parseDigits [] n = Some n"
| "parseDigits (d # ds) n =
     (if \<not> isDigit d then None
      else let n1 = n * 10 + (of_char d - of_char (CHR ''0''))
           in if n1 > 2 ^ 32 - 1 then None else parseDigits ds n1)"

definition ParseUint32 :: "string \<Rightarrow> int option" where
  "ParseUint32 s = (if length s < 1 then None else parseDigits s 0)"

text \<open>
  \<^verbatim>\<open>hash/fnv\<close>, \<^verbatim>\<open>New32\<close>: FNV-1 on 32 bits; every byte multiplies the hash by the
  prime (wrapping) and is then xor-ed in.
\<close>

definition offset32 :: "32 word" where
  "offset32 = 2166136261"

definition prime32 :: "32 word" where
  "prime32 = 16777619"

definition fnv32 :: "string \<Rightarrow> 32 word" where
  "fnv32 s = fold (\<lambda>c hash. (hash * prime32) XOR of_char c) s offset32"

text \<open>
  \<^verbatim>\<open>strings.Split(s, ",")\<close>: the fields between the commas, one more than there are
  commas, never an empty slice.
\<close>

fun Split_comma :: "string \<Rightarrow> string list" where
  "Split_comma [] = [[]]"
| "Split_comma (c # cs) =
     (if c = CHR '','' then [] # Split_comma cs
      else (case Split_comma cs of
              [] \<Rightarrow> [[c]]
            | t # ts \<Rightarrow> (c # t) # ts))"

text \<open>
  \<^verbatim>\<open>strings.TrimSpace\<close> removes the leading and the trailing white space
  \<^verbatim>\<open>unicode.IsSpace\<close> accepts. On the bytes of the string these are the UTF-8
  encodings of U+0009 to U+000D, U+0020, U+0085, U+00A0, U+1680, U+2000 to U+200A,
  U+2028, U+2029, U+202F, U+205F and U+3000; a byte sequence that is not valid UTF-8
  decodes to U+FFFD, which is not a space. \<open>spaceWidth s\<close> is the number of bytes of
  the space \<open>s\<close> starts with, 0 when it starts with none.
\<close>

definition spaceEncodings :: "string list" where
  "spaceEncodings =
     [[CHR 0x09],
      [CHR 0x0A],
      [CHR 0x0B],
      [CHR 0x0C],
      [CHR 0x0D],
      [CHR 0x20],
      [CHR 0xC2, CHR 0x85],
      [CHR 0xC2, CHR 0xA0],
      [CHR 0xE1, CHR 0x9A, CHR 0x80],
      [CHR 0xE2, CHR 0x80, CHR 0x80],
      [CHR 0xE2, CHR 0x80, CHR 0x81],
      [CHR 0xE2, CHR 0x80, CHR 0x82],
      [CHR 0xE2, CHR 0x80, CHR 0x83],
      [CHR 0xE2, CHR 0x80, CHR 0x84],
      [CHR 0xE2, CHR 0x80, CHR 0x85],
      [CHR 0xE2, CHR 0x80, CHR 0x86],
      [CHR 0xE2, CHR 0x80, CHR 0x87],
      [CHR 0xE2, CHR 0x80, CHR 0x88],
      [CHR 0xE2, CHR 0x80, CHR 0x89],
      [CHR 0xE2, CHR 0x80, CHR 0x8A],
      [CHR 0xE2, CHR 0x80, CHR 0xA8],
      [CHR 0xE2, CHR 0x80, CHR 0xA9],
      [CHR 0xE2, CHR 0x80, CHR 0xAF],
      [CHR 0xE2, CHR 0x81, CHR 0x9F],
      [CHR 0xE3, CHR 0x80, CHR 0x80]]"

definition startsWith :: "string \<Rightarrow> string \<Rightarrow> bool" where
  "startsWith e s = (take (length e) s = e)"

definition spaceWidth :: "string \<Rightarrow> nat" where
  "spaceWidth s = (case filter (\<lambda>e. startsWith e s) spaceEncodings of
                     [] \<Rightarrow> 0
                   | e # _ \<Rightarrow> length e)"

definition endsWith :: "string \<Rightarrow> string \<Rightarrow> bool" where
  "endsWith e s = startsWith (rev e) (rev s)"

definition spaceWidthRight :: "string \<Rightarrow> nat" where
  "spaceWidthRight s = (case filter (\<lambda>e. endsWith e s) spaceEncodings of
                          [] \<Rightarrow> 0
                        | e # _ \<Rightarrow> length e)"

function TrimLeftSpace :: "string \<Rightarrow> string" where
  "TrimLeftSpace s =
     (if s = [] \<or> spaceWidth s = 0 then s else TrimLeftSpace (drop (spaceWidth s) s))"
  by pat_completeness auto
termination
  by (relation "measure length") auto

function TrimRightSpace :: "string \<Rightarrow> string" where
  "TrimRightSpace s =
     (if s = [] \<or> spaceWidthRight s = 0 then s
      else TrimRightSpace (take (length s - spaceWidthRight s) s))"
  by pat_completeness auto
termination
  by (relation "measure length") auto

declare TrimLeftSpace.simps [simp del] TrimRightSpace.simps [simp del]

definition TrimSpace :: "string \<Rightarrow> string" where
  "TrimSpace s = TrimRightSpace (TrimLeftSpace s)"

subsection \<open>ChooseZoneForVolume\<close>

text \<open>
  \<open>rnd\<close> is the value \<^verbatim>\<open>rand.Uint32()\<close> returns, read only when the name is empty.
  \<^verbatim>\<open>zones.List()\<close> is the sorted list of the set (bytewise lexicographic order).
  \<open>hashIndex\<close> is the part of the function that computes \<^verbatim>\<open>hash\<close> and \<^verbatim>\<open>index\<close>
  from a non-empty name.
\<close>

definition hashIndex :: "string \<Rightarrow> 32 word \<times> 32 word" where
  "hashIndex pvcName =
     (let lastDash = LastIndexByte pvcName (CHR ''-'') in
      if lastDash \<noteq> -1 then
        (case ParseUint32 (drop (nat (lastDash + 1)) pvcName) of
           Some statefulsetID \<Rightarrow>
             (let index = (word_of_int statefulsetID :: 32 word);
                  hashString = take (nat lastDash) pvcName;
                  lastDash2 = LastIndexByte hashString (CHR ''-'');
                  hashString2 = (if lastDash2 \<noteq> -1 then drop (nat (lastDash2 + 1)) hashString
                                 else hashString)
              in (fnv32 hashString2, index))
         | None \<Rightarrow> (fnv32 pvcName, 0))
      else (fnv32 pvcName, 0))"

definition ChooseZoneForVolume :: "32 word \<Rightarrow> string set \<Rightarrow> string \<Rightarrow> error + string" where
  "ChooseZoneForVolume rnd zones pvcName =
     (let (hash, index) = (if pvcName = [] then (rnd, 0) else hashIndex pvcName);
          zoneSlice = sorted_list_of_set zones;
          n = (of_nat (length zoneSlice) :: 32 word)
      in if n = 0 then Inl DivideByZero
         else Inr (zoneSlice ! unat ((hash + index) mod n)))"

subsection \<open>zonesToSet\<close>

fun zonesToSetLoop :: "string \<Rightarrow> string list \<Rightarrow> string set \<Rightarrow> error + string set" where
  "zonesToSetLoop zonesString [] zonesSet = Inr zonesSet"
| "zonesToSetLoop zonesString (zone # zonesSlice) zonesSet =
     (let trimmedZone = TrimSpace zone
      in if trimmedZone = [] then Inl (EmptyZone zonesString)
         else zonesToSetLoop zonesString zonesSlice (insert trimmedZone zonesSet))"

definition zonesToSet :: "string \<Rightarrow> error + string set" where
  "zonesToSet zonesString = zonesToSetLoop zonesString (Split_comma zonesString) {}"

subsection \<open>The selector of a claim\<close>

text \<open>
  \<^verbatim>\<open>metav1.LabelSelector\<close> and \<^verbatim>\<open>metav1.LabelSelectorRequirement\<close>. The map
  \<^verbatim>\<open>MatchLabels\<close> is the list of its entries, in the order the \<^verbatim>\<open>range\<close> of
  \<^verbatim>\<open>validatePVCSelector\<close> visits them; a nil map and an empty map are both \<open>[]\<close>.
  An operator is a Go string. The label keys and the operators are constants of the
  package \<^verbatim>\<open>metav1\<close>, which is not part of the repository; they are given here with
  their values in that package (the comment of \<^verbatim>\<open>getPVCMatchExpression\<close> shows
  the zone key).
\<close>

record LabelSelectorRequirement =
  Key :: string
  Operator :: string
  Values :: "string list"

record LabelSelector =
  MatchLabels :: "(string \<times> string) list"
  MatchExpressions :: "LabelSelectorRequirement list"

record PersistentVolumeClaim =
  Selector :: "LabelSelector option"

definition LabelZoneFailureDomain :: string where
  "LabelZoneFailureDomain = ''failure-domain.beta.kubernetes.io/zone''"

definition LabelZoneRegion :: string where
  "LabelZoneRegion = ''failure-domain.beta.kubernetes.io/region''"

definition LabelSelectorOpIn :: string where
  "LabelSelectorOpIn = ''In''"

definition LabelSelectorOpNotIn :: string where
  "LabelSelectorOpNotIn = ''NotIn''"

definition LabelSelectorOpExists :: string where
  "LabelSelectorOpExists = ''Exists''"

definition allowedKeys :: "string \<Rightarrow> bool" where
  "allowedKeys k = (k = LabelZoneFailureDomain \<or> k = LabelZoneRegion)"

definition allowedOperators :: "string \<Rightarrow> bool" where
  "allowedOperators operator = (operator = LabelSelectorOpIn \<or> operator = LabelSelectorOpNotIn)"

subsection \<open>validatePVCSelector\<close>

fun validateMatchLabels :: "(string \<times> string) list \<Rightarrow> error option" where
  "validateMatchLabels [] = None"
| "validateMatchLabels ((label, v) # rest) =
     (if \<not> allowedKeys label then Some (LabelKeyNotPermitted label)
      else validateMatchLabels rest)"

fun validateMatchExpressions :: "LabelSelectorRequirement list \<Rightarrow> error option" where
  "validateMatchExpressions [] = None"
| "validateMatchExpressions (expr # rest) =
     (if \<not> allowedKeys (Key expr) then Some (ExprKeyNotPermitted (Key expr))
      else if \<not> allowedOperators (Operator expr) then Some (OperatorNotPermitted (Operator expr))
      else if length (Values expr) < 1 then Some (NoValues (Key expr) (Operator expr))
      else validateMatchExpressions rest)"

definition validatePVCSelector :: "PersistentVolumeClaim \<Rightarrow> bool \<times> error option" where
  "validatePVCSelector pvc =
     (case Selector pvc of
        None \<Rightarrow> (True, None)
      | Some sel \<Rightarrow>
          if length (MatchExpressions sel) < 1 \<and> length (MatchLabels sel) < 1 then (True, None)
          else (case (if length (MatchLabels sel) > 0 then validateMatchLabels (MatchLabels sel)
                      else None) of
                  Some e \<Rightarrow> (False, Some e)
                | None \<Rightarrow>
                    (case validateMatchExpressions (MatchExpressions sel) of
                       Some e \<Rightarrow> (False, Some e)
                     | None \<Rightarrow> (False, None))))"

subsection \<open>getPVCMatchLabel and getPVCMatchExpression\<close>

definition getPVCMatchLabel :: "PersistentVolumeClaim \<Rightarrow> string \<Rightarrow> error + string" where
  "getPVCMatchLabel pvc k =
     (case Selector pvc of
        None \<Rightarrow> Inl MissingMatchLabels
      | Some sel \<Rightarrow>
          (case map_of (MatchLabels sel) k of
             Some v \<Rightarrow> Inr v
           | None \<Rightarrow> Inl (LabelKeyNotFound k)))"

definition matchesExpression :: "string \<Rightarrow> string \<Rightarrow> LabelSelectorRequirement \<Rightarrow> bool" where
  "matchesExpression k operator item =
     (Key item = k \<and> Operator item = operator \<and> length (Values item) > 0)"

definition getPVCMatchExpression ::
  "PersistentVolumeClaim \<Rightarrow> string \<Rightarrow> string \<Rightarrow> error + string set list" where
  "getPVCMatchExpression pvc k operator =
     (case Selector pvc of
        None \<Rightarrow> Inl MissingMatchExpressions
      | Some sel \<Rightarrow>
          if length (MatchExpressions sel) < 1 then Inl EmptyMatchExpressions
          else (let capacity = length (filter (matchesExpression k operator) (MatchExpressions sel))
                in if capacity = 0 then Inl (OperatorNotFound k operator)
                   else Inr (map (\<lambda>item. set (Values item))
                               (filter (matchesExpression k operator) (MatchExpressions sel)))))"

subsection \<open>ZonesConf\<close>

text \<open>
  The two injected functions may do anything: they read and change a world \<open>'w\<close>,
  and return a value together with an error (\<open>None\<close> is \<^verbatim>\<open>nil\<close>), as a Go function
  of type \<^verbatim>\<open>func() (sets.String, error)\<close> does. The pointer \<^verbatim>\<open>PVC\<close> and the
  two function values are taken to be non-nil. The map \<^verbatim>\<open>regionToZonesMap\<close> reads a missing region as the nil set.
\<close>

record 'w ZonesConf =
  PVC :: PersistentVolumeClaim
  GetAllZones :: "'w \<Rightarrow> (string set \<times> error option) \<times> 'w"
  ZoneToRegion :: "string \<Rightarrow> 'w \<Rightarrow> (string \<times> error option) \<times> 'w"
  isSCZoneConfigured :: bool
  isSCZonesConfigured :: bool
  gotAllAvailableZones :: bool
  allAvailableZones :: "string set"
  resultingZones :: "string set"
  isRegionToZonesMapValid :: bool
  regionToZonesMap :: "string \<rightharpoonup> string set"

definition SetZone :: "'w ZonesConf \<Rightarrow> string \<Rightarrow> error option \<times> 'w ZonesConf" where
  "SetZone z zone =
     (if isSCZonesConfigured z then (Some BothZoneAndZones, z)
      else (None, z\<lparr>resultingZones := insert zone {}, isSCZoneConfigured := True\<rparr>))"

definition SetZones :: "'w ZonesConf \<Rightarrow> string \<Rightarrow> error option \<times> 'w ZonesConf" where
  "SetZones z zones =
     (if isSCZoneConfigured z then (Some BothZoneAndZones, z)
      else (case zonesToSet zones of
              Inl err \<Rightarrow> (Some (StorageClassError err), z\<lparr>resultingZones := {}\<rparr>)
            | Inr zonesSet \<Rightarrow> (None, z\<lparr>resultingZones := zonesSet, isSCZonesConfigured := True\<rparr>)))"

definition getAllAvailableZones ::
  "'w ZonesConf \<Rightarrow> 'w \<Rightarrow> (error + string set) \<times> 'w ZonesConf \<times> 'w" where
  "getAllAvailableZones z w =
     (if gotAllAvailableZones z then (Inr (allAvailableZones z), z, w)
      else (case GetAllZones z w of
              ((zones, Some err), w') \<Rightarrow> (Inl err, z\<lparr>allAvailableZones := zones\<rparr>, w')
            | ((zones, None), w') \<Rightarrow>
                (Inr zones, z\<lparr>allAvailableZones := zones, gotAllAvailableZones := True\<rparr>, w')))"

text \<open>
  The loop of \<^verbatim>\<open>calculateRegionToZonesMap\<close> over the zones, given in the order the
  \<^verbatim>\<open>range\<close> visits them. Go leaves that order open, so the resolver takes it as the
  parameter \<open>rangeOrder\<close>, the list in which a set is visited.
\<close>

definition zonesOfRegion :: "(string \<rightharpoonup> string set) \<Rightarrow> string \<Rightarrow> string set" where
  "zonesOfRegion m region = (case m region of None \<Rightarrow> {} | Some zones \<Rightarrow> zones)"

fun regionLoop ::
  "(string \<Rightarrow> 'w \<Rightarrow> (string \<times> error option) \<times> 'w) \<Rightarrow> string list \<Rightarrow>
   (string \<rightharpoonup> string set) \<Rightarrow> 'w \<Rightarrow> error option \<times> (string \<rightharpoonup> string set) \<times> 'w" where
  "regionLoop zoneToRegion [] m w = (None, m, w)"
| "regionLoop zoneToRegion (zone # zones) m w =
     (case zoneToRegion zone w of
        ((region, Some err), w') \<Rightarrow> (Some (ZoneToRegionFailed zone err), m, w')
      | ((region, None), w') \<Rightarrow>
          regionLoop zoneToRegion zones
            (m(region \<mapsto> insert zone (zonesOfRegion m region))) w')"

definition calculateRegionToZonesMap ::
  "(string set \<Rightarrow> string list) \<Rightarrow> 'w ZonesConf \<Rightarrow> 'w \<Rightarrow> error option \<times> 'w ZonesConf \<times> 'w" where
  "calculateRegionToZonesMap rangeOrder z w =
     (if isRegionToZonesMapValid z then (None, z, w)
      else
        (let z1 = z\<lparr>regionToZonesMap := Map.empty\<rparr> in
         case (if \<not> gotAllAvailableZones z1 then
                 (case getAllAvailableZones z1 w of
                    (Inl err, z2, w2) \<Rightarrow> (Some err, z2\<lparr>allAvailableZones := {}\<rparr>, w2)
                  | (Inr zones, z2, w2) \<Rightarrow> (None, z2\<lparr>allAvailableZones := zones\<rparr>, w2))
               else (None, z1, w)) of
           (Some err, z2, w2) \<Rightarrow> (Some err, z2, w2)
         | (None, z2, w2) \<Rightarrow>
             (case regionLoop (ZoneToRegion z2) (rangeOrder (allAvailableZones z2)) Map.empty w2 of
                (Some err, m, w3) \<Rightarrow> (Some err, z2\<lparr>regionToZonesMap := m\<rparr>, w3)
              | (None, m, w3) \<Rightarrow>
                  (None, z2\<lparr>regionToZonesMap := m, isRegionToZonesMapValid := True\<rparr>, w3))))"

definition regionToZones ::
  "(string set \<Rightarrow> string list) \<Rightarrow> 'w ZonesConf \<Rightarrow> string \<Rightarrow> 'w \<Rightarrow>
   (error + string set) \<times> 'w ZonesConf \<times> 'w" where
  "regionToZones rangeOrder z region w =
     (case (if \<not> isRegionToZonesMapValid z then calculateRegionToZonesMap rangeOrder z w
            else (None, z, w)) of
        (Some err, z', w') \<Rightarrow> (Inl err, z', w')
      | (None, z', w') \<Rightarrow> (Inr (zonesOfRegion (regionToZonesMap z') region), z', w'))"

subsection \<open>GetConfZones\<close>

text \<open>
  The function is a sequence of blocks, each guarded by a lookup in the selector that
  may miss (\<^verbatim>\<open>err == nil\<close> enters the block). Each block is a definition here, in
  the order of the source; \<open>GetConfZones\<close> runs them one after the other.
  \<open>summedZones\<close> is the inner loop that unions the zones of the regions of one
  expression (\<^verbatim>\<open>summedZonesForASetOfRegions\<close>).
\<close>

definition summedZones :: "(string \<rightharpoonup> string set) \<Rightarrow> string set \<Rightarrow> string set" where
  "summedZones m regions = (\<Union>region\<in>regions. zonesOfRegion m region)"

text \<open>Lines 606 to 610: the starting set.\<close>

definition startingZones ::
  "'w ZonesConf \<Rightarrow> 'w \<Rightarrow> error option \<times> 'w ZonesConf \<times> 'w" where
  "startingZones z w =
     (if \<not> isSCZoneConfigured z \<and> \<not> isSCZonesConfigured z then
        (case getAllAvailableZones z w of
           (Inl err, z1, w1) \<Rightarrow> (Some err, z1\<lparr>resultingZones := {}\<rparr>, w1)
         | (Inr zones, z1, w1) \<Rightarrow> (None, z1\<lparr>resultingZones := zones\<rparr>, w1))
      else (None, z, w))"

text \<open>Lines 616 to 620: the zone of matchLabels.\<close>

definition matchLabelZoneBlock :: "'w ZonesConf \<Rightarrow> 'w ZonesConf" where
  "matchLabelZoneBlock z =
     (case getPVCMatchLabel (PVC z) LabelZoneFailureDomain of
        Inr matchLabelZone \<Rightarrow> z\<lparr>resultingZones := resultingZones z \<inter> insert matchLabelZone {}\<rparr>
      | Inl err \<Rightarrow> z)"

text \<open>Lines 622 to 628: the region of matchLabels.\<close>

definition matchLabelRegionBlock ::
  "(string set \<Rightarrow> string list) \<Rightarrow> 'w ZonesConf \<Rightarrow> 'w \<Rightarrow> error option \<times> 'w ZonesConf \<times> 'w" where
  "matchLabelRegionBlock rangeOrder z w =
     (case getPVCMatchLabel (PVC z) LabelZoneRegion of
        Inr matchLabelRegion \<Rightarrow>
          (case regionToZones rangeOrder z matchLabelRegion w of
             (Inl err, z', w') \<Rightarrow> (Some err, z', w')
           | (Inr zones, z', w') \<Rightarrow>
               (None, z'\<lparr>resultingZones := resultingZones z' \<inter> zones\<rparr>, w'))
      | Inl err \<Rightarrow> (None, z, w))"

text \<open>Lines 629 to 633: the In expressions on the zone.\<close>

definition inZonesBlock :: "'w ZonesConf \<Rightarrow> 'w ZonesConf" where
  "inZonesBlock z =
     (case getPVCMatchExpression (PVC z) LabelZoneFailureDomain LabelSelectorOpIn of
        Inr matchExpressionZoneSets \<Rightarrow>
          z\<lparr>resultingZones :=
              fold (\<lambda>matchExpressionZoneSet r. r \<inter> matchExpressionZoneSet)
                matchExpressionZoneSets (resultingZones z)\<rparr>
      | Inl err \<Rightarrow> z)"

text \<open>Lines 634 to 648: the In expressions on the region.\<close>

definition inRegionsBlock ::
  "(string set \<Rightarrow> string list) \<Rightarrow> 'w ZonesConf \<Rightarrow> 'w \<Rightarrow> error option \<times> 'w ZonesConf \<times> 'w" where
  "inRegionsBlock rangeOrder z w =
     (case getPVCMatchExpression (PVC z) LabelZoneRegion LabelSelectorOpIn of
        Inr matchExpressionRegionSets \<Rightarrow>
          (case (if \<not> isRegionToZonesMapValid z then calculateRegionToZonesMap rangeOrder z w
                 else (None, z, w)) of
             (Some err, z', w') \<Rightarrow> (Some err, z', w')
           | (None, z', w') \<Rightarrow>
               (None,
                z'\<lparr>resultingZones :=
                     fold (\<lambda>matchExpressionRegionSet r.
                             r \<inter> summedZones (regionToZonesMap z') matchExpressionRegionSet)
                       matchExpressionRegionSets (resultingZones z')\<rparr>,
                w'))
      | Inl err \<Rightarrow> (None, z, w))"

text \<open>Lines 649 to 653: the NotIn expressions on the zone.\<close>

definition notInZonesBlock :: "'w ZonesConf \<Rightarrow> 'w ZonesConf" where
  "notInZonesBlock z =
     (case getPVCMatchExpression (PVC z) LabelZoneFailureDomain LabelSelectorOpNotIn of
        Inr matchExpressionZoneSets \<Rightarrow>
          z\<lparr>resultingZones :=
              fold (\<lambda>matchExpressionZoneSet r. r - matchExpressionZoneSet)
                matchExpressionZoneSets (resultingZones z)\<rparr>
      | Inl err \<Rightarrow> z)"

text \<open>Lines 654 to 668: the NotIn expressions on the region.\<close>

definition notInRegionsBlock ::
  "(string set \<Rightarrow> string list) \<Rightarrow> 'w ZonesConf \<Rightarrow> 'w \<Rightarrow> error option \<times> 'w ZonesConf \<times> 'w" where
  "notInRegionsBlock rangeOrder z w =
     (case getPVCMatchExpression (PVC z) LabelZoneRegion LabelSelectorOpNotIn of
        Inr matchExpressionRegionSets \<Rightarrow>
          (case (if \<not> isRegionToZonesMapValid z then calculateRegionToZonesMap rangeOrder z w
                 else (None, z, w)) of
             (Some err, z', w') \<Rightarrow> (Some err, z', w')
           | (None, z', w') \<Rightarrow>
               (None,
                z'\<lparr>resultingZones :=
                     fold (\<lambda>matchExpressionRegionSet r.
                             r - summedZones (regionToZonesMap z') matchExpressionRegionSet)
                       matchExpressionRegionSets (resultingZones z')\<rparr>,
                w'))
      | Inl err \<Rightarrow> (None, z, w))"

text \<open>
  The blocks after the selector has been found non-empty (lines 616 to 673), and the
  whole function. \<^verbatim>\<open>len(z.resultingZones) < 1\<close> is \<open>resultingZones z = {}\<close>.
\<close>

definition selectorBlocks ::
  "(string set \<Rightarrow> string list) \<Rightarrow> 'w ZonesConf \<Rightarrow> 'w \<Rightarrow>
   (error + string set) \<times> 'w ZonesConf \<times> 'w" where
  "selectorBlocks rangeOrder z w =
     (case matchLabelRegionBlock rangeOrder (matchLabelZoneBlock z) w of
        (Some err, z3, w3) \<Rightarrow> (Inl err, z3, w3)
      | (None, z3, w3) \<Rightarrow>
          (case inRegionsBlock rangeOrder (inZonesBlock z3) w3 of
             (Some err, z5, w5) \<Rightarrow> (Inl err, z5, w5)
           | (None, z5, w5) \<Rightarrow>
               (case notInRegionsBlock rangeOrder (notInZonesBlock z5) w5 of
                  (Some err, z7, w7) \<Rightarrow> (Inl err, z7, w7)
                | (None, z7, w7) \<Rightarrow>
                    if resultingZones z7 = {} then (Inl CannotSatisfy, z7, w7)
                    else (Inr (resultingZones z7), z7, w7))))"

definition GetConfZones ::
  "(string set \<Rightarrow> string list) \<Rightarrow> 'w ZonesConf \<Rightarrow> 'w \<Rightarrow>
   (error + string set) \<times> 'w ZonesConf \<times> 'w" where
  "GetConfZones rangeOrder z w =
     (case startingZones z w of
        (Some err, z1, w1) \<Rightarrow> (Inl err, z1, w1)
      | (None, z1, w1) \<Rightarrow>
          (case validatePVCSelector (PVC z1) of
             (emptySelector, Some err) \<Rightarrow> (Inl err, z1, w1)
           | (emptySelector, None) \<Rightarrow>
               if emptySelector then (Inr (resultingZones z1), z1, w1)
               else selectorBlocks rangeOrder z1 w1))"

subsection \<open>The resolution as the specification words it\<close>

text \<open>
  The second definition of the resolution, written from the specification's list of
  passes and compared with \<open>GetConfZones\<close> below. \<open>expressionSets\<close> are the value
  sets of the expressions with a given key and operator, one set for each expression,
  in the order of the selector. \<open>spec_passes\<close> applies passes 3 to 8 to a working set,
  given the zones of each region; \<open>spec_resolve\<close> is the whole resolution, with the
  starting set of pass 1 and the return of pass 2. The region index it reads is the
  one \<open>calculateRegionToZonesMap\<close> builds, and it is built only if the selector
  names a region.
\<close>

definition expressionSets :: "LabelSelector \<Rightarrow> string \<Rightarrow> string \<Rightarrow> string set list" where
  "expressionSets sel k operator =
     map (\<lambda>e. set (Values e))
       (filter (\<lambda>e. Key e = k \<and> Operator e = operator) (MatchExpressions sel))"

definition spec_passes ::
  "LabelSelector \<Rightarrow> (string \<Rightarrow> string set) \<Rightarrow> string set \<Rightarrow> string set" where
  "spec_passes sel zonesFor working =
     (let pass3 = (case map_of (MatchLabels sel) LabelZoneFailureDomain of
                     Some zone \<Rightarrow> working \<inter> {zone}
                   | None \<Rightarrow> working);
          pass4 = (case map_of (MatchLabels sel) LabelZoneRegion of
                     Some region \<Rightarrow> pass3 \<inter> zonesFor region
                   | None \<Rightarrow> pass3);
          pass5 = fold (\<lambda>values s. s \<inter> values)
                    (expressionSets sel LabelZoneFailureDomain LabelSelectorOpIn) pass4;
          pass6 = fold (\<lambda>regions s. s \<inter> (\<Union>region\<in>regions. zonesFor region))
                    (expressionSets sel LabelZoneRegion LabelSelectorOpIn) pass5;
          pass7 = fold (\<lambda>values s. s - values)
                    (expressionSets sel LabelZoneFailureDomain LabelSelectorOpNotIn) pass6;
          pass8 = fold (\<lambda>regions s. s - (\<Union>region\<in>regions. zonesFor region))
                    (expressionSets sel LabelZoneRegion LabelSelectorOpNotIn) pass7
      in pass8)"

definition spec_namesRegion :: "LabelSelector \<Rightarrow> bool" where
  "spec_namesRegion sel =
     (map_of (MatchLabels sel) LabelZoneRegion \<noteq> None
      \<or> expressionSets sel LabelZoneRegion LabelSelectorOpIn \<noteq> []
      \<or> expressionSets sel LabelZoneRegion LabelSelectorOpNotIn \<noteq> [])"

definition spec_resolve ::
  "(string set \<Rightarrow> string list) \<Rightarrow> 'w ZonesConf \<Rightarrow> 'w \<Rightarrow> error + string set" where
  "spec_resolve rangeOrder z w =
     (case (if isSCZoneConfigured z \<or> isSCZonesConfigured z then (Inr (resultingZones z), z, w)
            else getAllAvailableZones z w) of
        (Inl err, z1, w1) \<Rightarrow> Inl err
      | (Inr working, z1, w1) \<Rightarrow>
          (case validatePVCSelector (PVC z) of
             (emptySelector, Some err) \<Rightarrow> Inl err
           | (emptySelector, None) \<Rightarrow>
               (case Selector (PVC z) of
                  None \<Rightarrow> Inr working
                | Some sel \<Rightarrow>
                    if emptySelector then Inr working
                    else (case (if spec_namesRegion sel
                                then calculateRegionToZonesMap rangeOrder z1 w1
                                else (None, z1, w1)) of
                            (Some err, z2, w2) \<Rightarrow> Inl err
                          | (None, z2, w2) \<Rightarrow>
                              (let result = spec_passes sel (zonesOfRegion (regionToZonesMap z2)) working
                               in if result = {} then Inl CannotSatisfy else Inr result)))))"

subsection \<open>The cases of the selector validation, as the specification words them\<close>

definition selectorIsEmpty :: "PersistentVolumeClaim \<Rightarrow> bool" where
  "selectorIsEmpty pvc =
     (case Selector pvc of
        None \<Rightarrow> True
      | Some sel \<Rightarrow> length (MatchLabels sel) = 0 \<and> length (MatchExpressions sel) = 0)"

definition selectorIsMalformed :: "PersistentVolumeClaim \<Rightarrow> bool" where
  "selectorIsMalformed pvc =
     (case Selector pvc of
        None \<Rightarrow> False
      | Some sel \<Rightarrow>
          list_ex (\<lambda>(label, v). \<not> allowedKeys label) (MatchLabels sel)
          \<or> list_ex (\<lambda>expr. \<not> allowedKeys (Key expr) \<or> \<not> allowedOperators (Operator expr)
                           \<or> length (Values expr) = 0)
               (MatchExpressions sel))"

subsection \<open>Example resolvers\<close>

text \<open>
  A cluster whose zones \<open>a\<close>, \<open>b\<close> lie in region \<open>r1\<close> and \<open>c\<close>, \<open>d\<close> in \<open>r2\<close>.
  The world is the number of calls of the zone-to-region function so far.
\<close>

definition exampleRegion :: "string \<Rightarrow> string" where
  "exampleRegion zone = (if zone = ''a'' \<or> zone = ''b'' then ''r1'' else ''r2'')"

definition exampleConf :: "LabelSelector option \<Rightarrow> nat ZonesConf" where
  "exampleConf sel =
     \<lparr> PVC = \<lparr> Selector = sel \<rparr>,
       GetAllZones = (\<lambda>w. (({''a'', ''b'', ''c'', ''d''}, None), w)),
       ZoneToRegion = (\<lambda>zone w. ((exampleRegion zone, None), Suc w)),
       isSCZoneConfigured = False,
       isSCZonesConfigured = False,
       gotAllAvailableZones = False,
       allAvailableZones = {},
       resultingZones = {},
       isRegionToZonesMapValid = False,
       regionToZonesMap = Map.empty \<rparr>"

text \<open>A cluster that lists no zone at all.\<close>

definition emptyClusterConf :: "nat ZonesConf" where
  "emptyClusterConf = (exampleConf None)\<lparr> GetAllZones := (\<lambda>w. (({}, None), w)) \<rparr>"

text \<open>The same resolver once its caches are filled: the zones are listed and indexed.\<close>

definition exampleIndex :: "string \<rightharpoonup> string set" where
  "exampleIndex = [''r1'' \<mapsto> {''a'', ''b''}, ''r2'' \<mapsto> {''c'', ''d''}]"

definition exampleIndexedConf :: "LabelSelector option \<Rightarrow> nat ZonesConf" where
  "exampleIndexedConf sel =
     (exampleConf sel)\<lparr> gotAllAvailableZones := True,
                         allAvailableZones := {''a'', ''b'', ''c'', ''d''},
                         isRegionToZonesMapValid := True,
                         regionToZonesMap := exampleIndex \<rparr>"

text \<open>The same cluster with a zone-to-region function that fails on zone \<open>c\<close>.\<close>

definition unmappedZoneConf :: "nat ZonesConf" where
  "unmappedZoneConf =
     (exampleConf None)\<lparr> ZoneToRegion :=
        (\<lambda>zone w. (if zone = ''c'' then ([], Some (External ''no region''))
                    else (exampleRegion zone, None), Suc w)) \<rparr>"

text \<open>
  A selector with three expressions, listed in another order than the passes: not
  zone \<open>b\<close>; region \<open>r1\<close> or \<open>r3\<close>; zone \<open>a\<close>, \<open>b\<close> or \<open>c\<close>.
\<close>

definition exampleSelector :: LabelSelector where
  "exampleSelector =
     \<lparr> MatchLabels = [],
       MatchExpressions =
         [\<lparr> Key = LabelZoneFailureDomain, Operator = LabelSelectorOpNotIn, Values = [''b''] \<rparr>,
          \<lparr> Key = LabelZoneRegion, Operator = LabelSelectorOpIn, Values = [''r1'', ''r3''] \<rparr>,
          \<lparr> Key = LabelZoneFailureDomain, Operator = LabelSelectorOpIn,
            Values = [''a'', ''b'', ''c''] \<rparr>] \<rparr>"


section \<open>Properties\<close>

subsection \<open>ChooseZoneForVolume\<close>

lemma hashIndex_claim_set_0: "hashIndex ''claim-set-0'' = (fnv32 ''set'', 0)"
  by code_simp

lemma hashIndex_claim_set_1: "hashIndex ''claim-set-1'' = (fnv32 ''set'', 1)"
  by code_simp

lemma hashIndex_otherclaim_set_0: "hashIndex ''otherclaim-set-0'' = (fnv32 ''set'', 0)"
  by code_simp

lemma fnv32_set: "fnv32 ''set'' = 376462279"
  by code_simp

lemma zones_List_z123: "sorted_list_of_set {''z1'', ''z2'', ''z3''} = [''z1'', ''z2'', ''z3'']"
  by code_simp

text \<open>
  C3, as amended. For a non-empty request name the zone chosen depends on the zone set
  and the name only: two invocations return the same result whatever
  \<^verbatim>\<open>rand.Uint32()\<close> would have returned in each, and in whatever order the two
  sets were enumerated. (With an empty zone set both invocations panic.)
\<close>

theorem ChooseZoneForVolume_deterministic:
  "pvcName \<noteq> [] \<Longrightarrow> set xs = set ys \<Longrightarrow>
   ChooseZoneForVolume rnd1 (set xs) pvcName = ChooseZoneForVolume rnd2 (set ys) pvcName"
  by (simp add: ChooseZoneForVolume_def)

theorem ChooseZoneForVolume_deterministic_witness:
  "''claim-set-0'' \<noteq> [] \<and> set [''z1'', ''z2'', ''z3''] = set [''z3'', ''z1'', ''z2''] \<and>
   ChooseZoneForVolume 0 (set [''z1'', ''z2'', ''z3'']) ''claim-set-0'' = Inr ''z2'' \<and>
   ChooseZoneForVolume 5 (set [''z3'', ''z1'', ''z2'']) ''claim-set-0'' = Inr ''z2''"
proof -
  have ne: "''claim-set-0'' \<noteq> []" by simp
  have eq: "set [''z1'', ''z2'', ''z3''] = set [''z3'', ''z1'', ''z2'']" by auto
  have a: "ChooseZoneForVolume 0 (set [''z1'', ''z2'', ''z3'']) ''claim-set-0'' = Inr ''z2''"
    by (simp add: ChooseZoneForVolume_def hashIndex_claim_set_0 fnv32_set zones_List_z123)
  from ChooseZoneForVolume_deterministic [OF ne eq, of 0 5] a ne eq show ?thesis by simp
qed

text \<open>
  C3 as stated fails for the empty name: the hash is then \<^verbatim>\<open>rand.Uint32()\<close>, and two
  invocations on the zones \<open>a\<close>, \<open>b\<close> that draw 0 and 1 return different zones.
\<close>

theorem ChooseZoneForVolume_empty_name_counterexample:
  "ChooseZoneForVolume 0 {''a'', ''b''} [] \<noteq> ChooseZoneForVolume 1 {''a'', ''b''} []"
proof -
  have "sorted_list_of_set {''a'', ''b''} = [''a'', ''b'']" by code_simp
  then show ?thesis by (simp add: ChooseZoneForVolume_def)
qed

text \<open>
  C4. On the zones \<open>z1\<close>, \<open>z2\<close>, \<open>z3\<close> (sorted in this order) the names
  \<open>claim-set-0\<close> and \<open>claim-set-1\<close> are placed in \<open>z2\<close> and \<open>z3\<close>, at indices 1 and 2
  of the sorted list: both hash the segment \<open>set\<close> and add the ordinals 0 and 1, so
  the indices differ by 1 modulo 3. The name \<open>otherclaim-set-0\<close> hashes the same
  segment with the same ordinal and is placed in \<open>z2\<close> as well.
\<close>

theorem ChooseZoneForVolume_ordinals:
  "ChooseZoneForVolume rnd {''z1'', ''z2'', ''z3''} ''claim-set-0'' = Inr ''z2'' \<and>
   ChooseZoneForVolume rnd {''z1'', ''z2'', ''z3''} ''claim-set-1'' = Inr ''z3'' \<and>
   ChooseZoneForVolume rnd {''z1'', ''z2'', ''z3''} ''otherclaim-set-0'' = Inr ''z2'' \<and>
   sorted_list_of_set {''z1'', ''z2'', ''z3''} = [''z1'', ''z2'', ''z3''] \<and>
   hashIndex ''claim-set-0'' = (fnv32 ''set'', 0) \<and>
   hashIndex ''claim-set-1'' = (fnv32 ''set'', 1) \<and>
   hashIndex ''otherclaim-set-0'' = (fnv32 ''set'', 0) \<and>
   unat ((fnv32 ''set'' + 0) mod 3) = 1 \<and>
   unat ((fnv32 ''set'' + 1) mod 3) = (1 + 1) mod 3"
  by (simp add: ChooseZoneForVolume_def hashIndex_claim_set_0 hashIndex_claim_set_1
      hashIndex_otherclaim_set_0 fnv32_set zones_List_z123)


subsection \<open>validatePVCSelector\<close>

lemma validateMatchLabels_None:
  "(validateMatchLabels ls = None) = (\<not> list_ex (\<lambda>(label, v). \<not> allowedKeys label) ls)"
  by (induction ls rule: validateMatchLabels.induct) auto

lemma validateMatchExpressions_None:
  "(validateMatchExpressions es = None) =
   (\<not> list_ex (\<lambda>expr. \<not> allowedKeys (Key expr) \<or> \<not> allowedOperators (Operator expr)
                       \<or> length (Values expr) = 0) es)"
  by (induction es) auto

text \<open>
  C5. \<open>validatePVCSelector\<close> returns \<open>(true, nil)\<close> exactly when the selector is absent
  or has neither labels nor expressions; it returns \<open>false\<close> with an error exactly when
  some label key or expression key is not one of the two permitted keys, some
  expression operator is neither In nor NotIn, or some expression has no value; it
  returns \<open>(false, nil)\<close> exactly for the other selectors; and it never returns \<open>true\<close>
  with an error.
\<close>

theorem validatePVCSelector_cases:
  "(validatePVCSelector pvc = (True, None)) = selectorIsEmpty pvc \<and>
   (\<exists>err. validatePVCSelector pvc = (False, Some err)) = selectorIsMalformed pvc \<and>
   (validatePVCSelector pvc = (False, None)) = (\<not> selectorIsEmpty pvc \<and> \<not> selectorIsMalformed pvc) \<and>
   validatePVCSelector pvc \<noteq> (True, Some err')"
proof (cases "Selector pvc")
  case None
  then show ?thesis
    by (simp add: validatePVCSelector_def selectorIsEmpty_def selectorIsMalformed_def)
next
  case (Some sel)
  show ?thesis
  proof (cases "MatchExpressions sel = [] \<and> MatchLabels sel = []")
    case True
    with Some show ?thesis
      by (simp add: validatePVCSelector_def selectorIsEmpty_def selectorIsMalformed_def)
  next
    case False
    have l: "(\<exists>e. validateMatchLabels (MatchLabels sel) = Some e) =
             list_ex (\<lambda>(label, v). \<not> allowedKeys label) (MatchLabels sel)"
      using validateMatchLabels_None [of "MatchLabels sel"] by auto
    have x: "(\<exists>e. validateMatchExpressions (MatchExpressions sel) = Some e) =
             list_ex (\<lambda>expr. \<not> allowedKeys (Key expr) \<or> \<not> allowedOperators (Operator expr)
                     \<or> length (Values expr) = 0) (MatchExpressions sel)"
      using validateMatchExpressions_None [of "MatchExpressions sel"] by auto
    from False Some l x show ?thesis
      by (auto simp: validatePVCSelector_def selectorIsEmpty_def selectorIsMalformed_def
          split: option.splits)
  qed
qed

theorem validatePVCSelector_cases_witness:
  "selectorIsMalformed \<lparr> Selector = Some \<lparr> MatchLabels = [],
      MatchExpressions = [\<lparr> Key = ''key2'', Operator = ''In'', Values = [''value1'', ''value2''] \<rparr>] \<rparr> \<rparr> \<and>
   validatePVCSelector \<lparr> Selector = Some \<lparr> MatchLabels = [],
      MatchExpressions = [\<lparr> Key = ''key2'', Operator = ''In'', Values = [''value1'', ''value2''] \<rparr>] \<rparr> \<rparr>
     = (False, Some (ExprKeyNotPermitted ''key2'')) \<and>
   \<not> selectorIsEmpty \<lparr> Selector = Some \<lparr> MatchLabels = [(LabelZoneFailureDomain, ''us-east-1a'')],
      MatchExpressions = [] \<rparr> \<rparr> \<and>
   \<not> selectorIsMalformed \<lparr> Selector = Some \<lparr> MatchLabels = [(LabelZoneFailureDomain, ''us-east-1a'')],
      MatchExpressions = [] \<rparr> \<rparr> \<and>
   validatePVCSelector \<lparr> Selector = Some \<lparr> MatchLabels = [(LabelZoneFailureDomain, ''us-east-1a'')],
      MatchExpressions = [] \<rparr> \<rparr> = (False, None) \<and>
   validatePVCSelector \<lparr> Selector = Some \<lparr> MatchLabels = [],
      MatchExpressions = [\<lparr> Key = LabelZoneFailureDomain, Operator = LabelSelectorOpExists,
                             Values = [''value1'', ''value2''] \<rparr>] \<rparr> \<rparr>
     = (False, Some (OperatorNotPermitted LabelSelectorOpExists)) \<and>
   validatePVCSelector \<lparr> Selector = Some \<lparr> MatchLabels = [],
      MatchExpressions = [\<lparr> Key = LabelZoneFailureDomain, Operator = LabelSelectorOpIn,
                             Values = [] \<rparr>] \<rparr> \<rparr>
     = (False, Some (NoValues LabelZoneFailureDomain LabelSelectorOpIn)) \<and>
   selectorIsEmpty \<lparr> Selector = None \<rparr> \<and>
   validatePVCSelector \<lparr> Selector = None \<rparr> = (True, None)"
  using validatePVCSelector_cases [of "\<lparr> Selector = Some \<lparr> MatchLabels = [],
      MatchExpressions = [\<lparr> Key = ''key2'', Operator = ''In'', Values = [''value1'', ''value2''] \<rparr>] \<rparr> \<rparr>"]
    validatePVCSelector_cases [of "\<lparr> Selector = Some \<lparr> MatchLabels = [(LabelZoneFailureDomain, ''us-east-1a'')],
      MatchExpressions = [] \<rparr> \<rparr>"]
    validatePVCSelector_cases [of "\<lparr> Selector = None \<rparr>"]
  by (simp add: selectorIsMalformed_def selectorIsEmpty_def validatePVCSelector_def
      allowedKeys_def allowedOperators_def LabelZoneFailureDomain_def LabelZoneRegion_def
      LabelSelectorOpIn_def LabelSelectorOpNotIn_def LabelSelectorOpExists_def)


subsection \<open>zonesToSet and strings.TrimSpace\<close>

lemma spaceWidth_ascii:
  "c \<in> {CHR 0x09, CHR 0x0A, CHR 0x0B, CHR 0x0C, CHR 0x0D, CHR 0x20} \<Longrightarrow> spaceWidth (c # cs) = 1"
  unfolding spaceWidth_def spaceEncodings_def startsWith_def
  by (elim insertE emptyE) simp_all

lemma TrimLeftSpace_Nil: "TrimLeftSpace [] = []"
  by (subst TrimLeftSpace.simps) simp

lemma TrimRightSpace_Nil: "TrimRightSpace [] = []"
  by (subst TrimRightSpace.simps) simp

lemma TrimLeftSpace_ascii:
  "set tok \<subseteq> {CHR 0x09, CHR 0x0A, CHR 0x0B, CHR 0x0C, CHR 0x0D, CHR 0x20} \<Longrightarrow> TrimLeftSpace tok = []"
proof (induction tok)
  case Nil
  then show ?case by (simp add: TrimLeftSpace_Nil)
next
  case (Cons c cs)
  then have "spaceWidth (c # cs) = 1" by (intro spaceWidth_ascii) simp
  with Cons show ?case by (subst TrimLeftSpace.simps) simp
qed

lemma TrimSpace_ascii:
  "set tok \<subseteq> {CHR 0x09, CHR 0x0A, CHR 0x0B, CHR 0x0C, CHR 0x0D, CHR 0x20} \<Longrightarrow> TrimSpace tok = []"
  by (simp add: TrimSpace_def TrimLeftSpace_ascii TrimRightSpace_Nil)

lemma zonesToSetLoop_eq:
  "zonesToSetLoop zonesString toks S =
     (if list_ex (\<lambda>tok. TrimSpace tok = []) toks then Inl (EmptyZone zonesString)
      else Inr (S \<union> TrimSpace ` set toks))"
  by (induction toks arbitrary: S) (auto simp: Let_def)

lemma zonesToSet_eq:
  "zonesToSet zonesString =
     (if list_ex (\<lambda>tok. TrimSpace tok = []) (Split_comma zonesString) then Inl (EmptyZone zonesString)
      else Inr (TrimSpace ` set (Split_comma zonesString)))"
  by (simp add: zonesToSet_def zonesToSetLoop_eq)

lemma zonesToSet_a_b: "zonesToSet '' a , b'' = Inr {''a'', ''b''}"
proof -
  have "map TrimSpace (Split_comma '' a , b'') = [''a'', ''b'']" by code_simp
  then have "TrimSpace ` set (Split_comma '' a , b'') = {''a'', ''b''}"
    by (metis list.simps(15) set_map list.set(1))
  moreover have "\<not> list_ex (\<lambda>tok. TrimSpace tok = []) (Split_comma '' a , b'')"
    by code_simp
  ultimately show ?thesis by (simp add: zonesToSet_eq)
qed

lemma zonesToSet_blank_token: "zonesToSet ''a, ,b'' = Inl (EmptyZone ''a, ,b'')"
proof -
  have "list_ex (\<lambda>tok. TrimSpace tok = []) (Split_comma ''a, ,b'')" by code_simp
  then show ?thesis by (simp add: zonesToSet_eq)
qed

subsection \<open>SetZone and SetZones\<close>

text \<open>
  C6. Configuring both forms fails in either order: after a successful \<open>SetZones\<close>,
  \<open>SetZone\<close> returns the error and leaves the resolver as it was, and after a successful
  \<open>SetZone\<close>, \<open>SetZones\<close> returns the error and leaves the resolver as it was.
\<close>

theorem SetZone_SetZones_conflict:
  "(SetZones z zones = (None, z1) \<longrightarrow> SetZone z1 zone = (Some BothZoneAndZones, z1)) \<and>
   (SetZone z zone' = (None, z2) \<longrightarrow> SetZones z2 zones' = (Some BothZoneAndZones, z2))"
  by (auto simp: SetZone_def SetZones_def split: if_splits sum.splits)

theorem SetZone_SetZones_conflict_witness:
  "SetZones (exampleConf None) '' a , b''
     = (None, (exampleConf None)\<lparr>resultingZones := {''a'', ''b''}, isSCZonesConfigured := True\<rparr>) \<and>
   SetZone ((exampleConf None)\<lparr>resultingZones := {''a'', ''b''}, isSCZonesConfigured := True\<rparr>) ''c''
     = (Some BothZoneAndZones,
        (exampleConf None)\<lparr>resultingZones := {''a'', ''b''}, isSCZonesConfigured := True\<rparr>) \<and>
   SetZone (exampleConf None) ''c''
     = (None, (exampleConf None)\<lparr>resultingZones := {''c''}, isSCZoneConfigured := True\<rparr>) \<and>
   SetZones ((exampleConf None)\<lparr>resultingZones := {''c''}, isSCZoneConfigured := True\<rparr>) '' a , b''
     = (Some BothZoneAndZones,
        (exampleConf None)\<lparr>resultingZones := {''c''}, isSCZoneConfigured := True\<rparr>)"
proof -
  have a: "SetZones (exampleConf None) '' a , b''
     = (None, (exampleConf None)\<lparr>resultingZones := {''a'', ''b''}, isSCZonesConfigured := True\<rparr>)"
    by (simp add: SetZones_def exampleConf_def zonesToSet_a_b)
  have b: "SetZone (exampleConf None) ''c''
     = (None, (exampleConf None)\<lparr>resultingZones := {''c''}, isSCZoneConfigured := True\<rparr>)"
    by (simp add: SetZone_def exampleConf_def)
  from a b
    SetZone_SetZones_conflict [of "exampleConf None" "'' a , b''"
      "(exampleConf None)\<lparr>resultingZones := {''a'', ''b''}, isSCZonesConfigured := True\<rparr>" "''c''"
      "''c''" "(exampleConf None)\<lparr>resultingZones := {''c''}, isSCZoneConfigured := True\<rparr>"
      "'' a , b''"]
  show ?thesis by simp
qed



lemma zonesToSet_empty_token: "zonesToSet ''a,,b'' = Inl (EmptyZone ''a,,b'')"
proof -
  have "list_ex (\<lambda>tok. TrimSpace tok = []) (Split_comma ''a,,b'')" by code_simp
  then show ?thesis by (simp add: zonesToSet_eq)
qed

lemma zonesToSet_two_zones: "zonesToSet ''a,b'' = Inr {''a'', ''b''}"
proof -
  have "map TrimSpace (Split_comma ''a,b'') = [''a'', ''b'']" by code_simp
  then have "TrimSpace ` set (Split_comma ''a,b'') = {''a'', ''b''}"
    by (metis list.simps(15) set_map list.set(1))
  moreover have "\<not> list_ex (\<lambda>tok. TrimSpace tok = []) (Split_comma ''a,b'')"
    by code_simp
  ultimately show ?thesis by (simp add: zonesToSet_eq)
qed

text \<open>
  C10, as amended. \<open>zonesToSet\<close> trims every comma-separated token before inserting
  it: the text \<open> a , b\<close> gives the zones \<open>a\<close> and \<open>b\<close>, and a text all of whose tokens
  keep something after trimming gives the set of the trimmed tokens. On a resolver on
  which no zones list is configured, a token that trims to nothing (an empty token, or
  one made of white space only, such as a token of blanks, tabs and line breaks) makes
  \<open>SetZones\<close> fail and leaves no zones list configured: when no single zone is
  configured either, the failure is the parse error and the resulting zones are left
  empty; when a single zone is configured, the failure is the error for using both
  forms, returned before the text is parsed, and the resolver is left as it was.
\<close>

theorem SetZones_trims_tokens:
  "zonesToSet '' a , b'' = Inr {''a'', ''b''} \<and>
   (\<not> isSCZoneConfigured z \<longrightarrow>
      SetZones z '' a , b'' = (None, z\<lparr>resultingZones := {''a'', ''b''}, isSCZonesConfigured := True\<rparr>)) \<and>
   (\<not> list_ex (\<lambda>tok. TrimSpace tok = []) (Split_comma zones) \<longrightarrow>
      zonesToSet zones = Inr (TrimSpace ` set (Split_comma zones))) \<and>
   (tok \<in> set (Split_comma zones) \<and>
    (TrimSpace tok = [] \<or> set tok \<subseteq> {CHR 0x09, CHR 0x0A, CHR 0x0B, CHR 0x0C, CHR 0x0D, CHR 0x20}) \<and>
    \<not> isSCZonesConfigured z \<and> SetZones z zones = (r, z') \<longrightarrow>
      r \<noteq> None \<and>
      \<not> isSCZonesConfigured z' \<and>
      (\<not> isSCZoneConfigured z \<longrightarrow>
         r = Some (StorageClassError (EmptyZone zones)) \<and>
         z' = z\<lparr>resultingZones := {}\<rparr> \<and>
         resultingZones z' = {} \<and>
         \<not> isSCZoneConfigured z') \<and>
      (isSCZoneConfigured z \<longrightarrow> r = Some BothZoneAndZones \<and> z' = z))"
proof -
  have ex: "list_ex (\<lambda>tok. TrimSpace tok = []) (Split_comma zones)"
    if "tok \<in> set (Split_comma zones)"
      and "TrimSpace tok = [] \<or> set tok \<subseteq> {CHR 0x09, CHR 0x0A, CHR 0x0B, CHR 0x0C, CHR 0x0D, CHR 0x20}"
    using that TrimSpace_ascii [of tok] by (auto simp: list_ex_iff)
  have c2: "\<not> isSCZoneConfigured z \<longrightarrow>
      SetZones z '' a , b'' = (None, z\<lparr>resultingZones := {''a'', ''b''}, isSCZonesConfigured := True\<rparr>)"
    by (simp add: SetZones_def zonesToSet_a_b)
  have c3: "\<not> list_ex (\<lambda>tok. TrimSpace tok = []) (Split_comma zones) \<longrightarrow>
      zonesToSet zones = Inr (TrimSpace ` set (Split_comma zones))"
    by (simp add: zonesToSet_eq)
  have c4: "tok \<in> set (Split_comma zones) \<and>
    (TrimSpace tok = [] \<or> set tok \<subseteq> {CHR 0x09, CHR 0x0A, CHR 0x0B, CHR 0x0C, CHR 0x0D, CHR 0x20}) \<and>
    \<not> isSCZonesConfigured z \<and> SetZones z zones = (r, z') \<longrightarrow>
      r \<noteq> None \<and>
      \<not> isSCZonesConfigured z' \<and>
      (\<not> isSCZoneConfigured z \<longrightarrow>
         r = Some (StorageClassError (EmptyZone zones)) \<and>
         z' = z\<lparr>resultingZones := {}\<rparr> \<and>
         resultingZones z' = {} \<and>
         \<not> isSCZoneConfigured z') \<and>
      (isSCZoneConfigured z \<longrightarrow> r = Some BothZoneAndZones \<and> z' = z)"
  proof (intro impI)
    assume h: "tok \<in> set (Split_comma zones) \<and>
      (TrimSpace tok = [] \<or> set tok \<subseteq> {CHR 0x09, CHR 0x0A, CHR 0x0B, CHR 0x0C, CHR 0x0D, CHR 0x20}) \<and>
      \<not> isSCZonesConfigured z \<and> SetZones z zones = (r, z')"
    then have p: "zonesToSet zones = Inl (EmptyZone zones)"
      using ex by (simp add: zonesToSet_eq)
    show "r \<noteq> None \<and>
      \<not> isSCZonesConfigured z' \<and>
      (\<not> isSCZoneConfigured z \<longrightarrow>
         r = Some (StorageClassError (EmptyZone zones)) \<and>
         z' = z\<lparr>resultingZones := {}\<rparr> \<and>
         resultingZones z' = {} \<and>
         \<not> isSCZoneConfigured z') \<and>
      (isSCZoneConfigured z \<longrightarrow> r = Some BothZoneAndZones \<and> z' = z)"
    proof (cases "isSCZoneConfigured z")
      case True
      with h show ?thesis by (auto simp: SetZones_def)
    next
      case False
      with h p show ?thesis by (auto simp: SetZones_def)
    qed
  qed
  from zonesToSet_a_b c2 c3 c4 show ?thesis by (intro conjI)
qed

theorem SetZones_trims_tokens_witness:
  "zonesToSet '' a , b'' = Inr {''a'', ''b''} \<and>
   \<not> isSCZoneConfigured (exampleConf None) \<and>
   \<not> isSCZonesConfigured (exampleConf None) \<and>
   SetZones (exampleConf None) '' a , b''
     = (None, (exampleConf None)\<lparr>resultingZones := {''a'', ''b''}, isSCZonesConfigured := True\<rparr>) \<and>
   '' '' \<in> set (Split_comma ''a, ,b'') \<and>
   set '' '' \<subseteq> {CHR 0x09, CHR 0x0A, CHR 0x0B, CHR 0x0C, CHR 0x0D, CHR 0x20} \<and>
   SetZones (exampleConf None) ''a, ,b''
     = (Some (StorageClassError (EmptyZone ''a, ,b'')), (exampleConf None)\<lparr>resultingZones := {}\<rparr>) \<and>
   \<not> isSCZonesConfigured ((exampleConf None)\<lparr>resultingZones := {}\<rparr>) \<and>
   [] \<in> set (Split_comma ''a,,b'') \<and>
   TrimSpace [] = [] \<and>
   isSCZoneConfigured ((exampleConf None)\<lparr>resultingZones := {''c''}, isSCZoneConfigured := True\<rparr>) \<and>
   \<not> isSCZonesConfigured ((exampleConf None)\<lparr>resultingZones := {''c''}, isSCZoneConfigured := True\<rparr>) \<and>
   SetZones ((exampleConf None)\<lparr>resultingZones := {''c''}, isSCZoneConfigured := True\<rparr>) ''a,,b''
     = (Some BothZoneAndZones,
        (exampleConf None)\<lparr>resultingZones := {''c''}, isSCZoneConfigured := True\<rparr>)"
proof -
  let ?zc = "(exampleConf None)\<lparr>resultingZones := {''c''}, isSCZoneConfigured := True\<rparr>"
  have t: "'' '' \<in> set (Split_comma ''a, ,b'')" by simp
  have t': "[] \<in> set (Split_comma ''a,,b'')" by simp
  have e: "TrimSpace [] = []" by (simp add: TrimSpace_def TrimLeftSpace_Nil TrimRightSpace_Nil)
  have n: "\<not> isSCZoneConfigured (exampleConf None)" by (simp add: exampleConf_def)
  have n': "\<not> isSCZonesConfigured (exampleConf None)" by (simp add: exampleConf_def)
  have s: "SetZones (exampleConf None) ''a, ,b''
     = (Some (StorageClassError (EmptyZone ''a, ,b'')), (exampleConf None)\<lparr>resultingZones := {}\<rparr>)"
    by (simp add: SetZones_def n zonesToSet_blank_token)
  have c: "isSCZoneConfigured ?zc" by simp
  have c': "\<not> isSCZonesConfigured ?zc" by (simp add: exampleConf_def)
  have s': "SetZones ?zc ''a,,b'' = (Some BothZoneAndZones, ?zc)"
    by (simp add: SetZones_def)
  from t n n' s
    SetZones_trims_tokens [of "exampleConf None" "''a, ,b''" "'' ''"
      "Some (StorageClassError (EmptyZone ''a, ,b''))" "(exampleConf None)\<lparr>resultingZones := {}\<rparr>"]
  have a: "zonesToSet '' a , b'' = Inr {''a'', ''b''}"
    and b: "SetZones (exampleConf None) '' a , b''
     = (None, (exampleConf None)\<lparr>resultingZones := {''a'', ''b''}, isSCZonesConfigured := True\<rparr>)"
    and d: "\<not> isSCZonesConfigured ((exampleConf None)\<lparr>resultingZones := {}\<rparr>)"
    by simp_all
  from t' e c c' s'
    SetZones_trims_tokens [of ?zc "''a,,b''" "[]" "Some BothZoneAndZones" ?zc]
  have "\<not> isSCZonesConfigured ?zc" by simp
  with a n n' b t s d t' e c s' show ?thesis by simp
qed

text \<open>
  C10 as stated fails on a resolver that already has an override. After a successful
  \<open>SetZones\<close> of \<open>a,b\<close>, a \<open>SetZones\<close> of \<open>a,,b\<close> returns the parse error, yet the zones
  list stays marked configured (with its zones emptied), and \<open>SetZone\<close> is still
  refused. After a successful \<open>SetZone\<close>, the same text makes \<open>SetZones\<close> return the
  error for using both forms, not a parse error.
\<close>

theorem SetZones_blank_token_counterexample:
  "SetZones (exampleConf None) ''a,b''
     = (None, (exampleConf None)\<lparr>resultingZones := {''a'', ''b''}, isSCZonesConfigured := True\<rparr>) \<and>
   [] \<in> set (Split_comma ''a,,b'') \<and>
   SetZones ((exampleConf None)\<lparr>resultingZones := {''a'', ''b''}, isSCZonesConfigured := True\<rparr>) ''a,,b''
     = (Some (StorageClassError (EmptyZone ''a,,b'')),
        (exampleConf None)\<lparr>resultingZones := {}, isSCZonesConfigured := True\<rparr>) \<and>
   isSCZonesConfigured ((exampleConf None)\<lparr>resultingZones := {}, isSCZonesConfigured := True\<rparr>) \<and>
   SetZone ((exampleConf None)\<lparr>resultingZones := {}, isSCZonesConfigured := True\<rparr>) ''c''
     = (Some BothZoneAndZones,
        (exampleConf None)\<lparr>resultingZones := {}, isSCZonesConfigured := True\<rparr>) \<and>
   SetZone (exampleConf None) ''c''
     = (None, (exampleConf None)\<lparr>resultingZones := {''c''}, isSCZoneConfigured := True\<rparr>) \<and>
   SetZones ((exampleConf None)\<lparr>resultingZones := {''c''}, isSCZoneConfigured := True\<rparr>) ''a,,b''
     = (Some BothZoneAndZones,
        (exampleConf None)\<lparr>resultingZones := {''c''}, isSCZoneConfigured := True\<rparr>)"
proof -
  have a: "SetZones (exampleConf None) ''a,b''
     = (None, (exampleConf None)\<lparr>resultingZones := {''a'', ''b''}, isSCZonesConfigured := True\<rparr>)"
    by (simp add: SetZones_def exampleConf_def zonesToSet_two_zones)
  have t: "[] \<in> set (Split_comma ''a,,b'')" by simp
  have b: "SetZones ((exampleConf None)\<lparr>resultingZones := {''a'', ''b''}, isSCZonesConfigured := True\<rparr>) ''a,,b''
     = (Some (StorageClassError (EmptyZone ''a,,b'')),
        (exampleConf None)\<lparr>resultingZones := {}, isSCZonesConfigured := True\<rparr>)"
    by (simp add: SetZones_def exampleConf_def zonesToSet_empty_token)
  have c: "isSCZonesConfigured ((exampleConf None)\<lparr>resultingZones := {}, isSCZonesConfigured := True\<rparr>)"
    by simp
  have d: "SetZone ((exampleConf None)\<lparr>resultingZones := {}, isSCZonesConfigured := True\<rparr>) ''c''
     = (Some BothZoneAndZones,
        (exampleConf None)\<lparr>resultingZones := {}, isSCZonesConfigured := True\<rparr>)"
    by (simp add: SetZone_def)
  have e: "SetZone (exampleConf None) ''c''
     = (None, (exampleConf None)\<lparr>resultingZones := {''c''}, isSCZoneConfigured := True\<rparr>)"
    by (simp add: SetZone_def exampleConf_def)
  have f: "SetZones ((exampleConf None)\<lparr>resultingZones := {''c''}, isSCZoneConfigured := True\<rparr>) ''a,,b''
     = (Some BothZoneAndZones,
        (exampleConf None)\<lparr>resultingZones := {''c''}, isSCZoneConfigured := True\<rparr>)"
    by (simp add: SetZones_def)
  from a t b c d e f show ?thesis by (intro conjI)
qed


subsection \<open>The region index\<close>

lemma zonesOfRegion_upd:
  "zonesOfRegion (m(region \<mapsto> zones)) r = (if r = region then zones else zonesOfRegion m r)"
  by (simp add: zonesOfRegion_def)

lemma zonesOfRegion_empty: "zonesOfRegion Map.empty r = {}"
  by (simp add: zonesOfRegion_def)

lemma regionLoop_cases:
  "(\<exists>m' w'. regionLoop zr zs m w = (None, m', w')) \<or>
   (\<exists>zone err m' w'. regionLoop zr zs m w = (Some (ZoneToRegionFailed zone err), m', w'))"
proof (induction zs arbitrary: m w)
  case Nil
  then show ?case by simp
next
  case (Cons zone zs)
  obtain region e w' where zr: "zr zone w = ((region, e), w')"
    by (metis surj_pair)
  show ?case
  proof (cases e)
    case None
    with zr have "regionLoop zr (zone # zs) m w
        = regionLoop zr zs (m(region \<mapsto> insert zone (zonesOfRegion m region))) w'"
      by simp
    with Cons.IH show ?thesis by presburger
  next
    case (Some err)
    with zr show ?thesis by simp
  qed
qed

lemma regionLoop_all_found:
  assumes "\<forall>zone w. fst (zr zone w) = lookup zone"
    and "\<forall>zone\<in>set zs. snd (lookup zone) = None"
  shows "\<exists>m' w'. regionLoop zr zs m w = (None, m', w') \<and>
           (\<forall>r. zonesOfRegion m' r = zonesOfRegion m r \<union> {zone \<in> set zs. fst (lookup zone) = r})"
  using assms(2)
proof (induction zs arbitrary: m w)
  case Nil
  then show ?case by simp
next
  case (Cons zone zs)
  obtain region e w' where zr: "zr zone w = ((region, e), w')"
    by (metis surj_pair)
  with assms(1) have lk: "lookup zone = (region, e)"
    by (metis fst_conv)
  with Cons.prems have e: "e = None" by simp
  from Cons.prems have "\<forall>zone\<in>set zs. snd (lookup zone) = None" by simp
  from Cons.IH [OF this, of "m(region \<mapsto> insert zone (zonesOfRegion m region))" w']
  obtain m' w'' where
    run: "regionLoop zr zs (m(region \<mapsto> insert zone (zonesOfRegion m region))) w' = (None, m', w'')"
    and idx: "\<forall>r. zonesOfRegion m' r =
        zonesOfRegion (m(region \<mapsto> insert zone (zonesOfRegion m region))) r
          \<union> {zone \<in> set zs. fst (lookup zone) = r}"
    by blast
  from zr e run have "regionLoop zr (zone # zs) m w = (None, m', w'')" by simp
  moreover from idx lk
  have "\<forall>r. zonesOfRegion m' r = zonesOfRegion m r \<union> {x \<in> set (zone # zs). fst (lookup x) = r}"
    by (auto simp: zonesOfRegion_upd)
  ultimately show ?case by blast
qed

lemma regionLoop_some_missing:
  assumes "\<forall>zone w. fst (zr zone w) = lookup zone"
    and "\<exists>zone\<in>set zs. snd (lookup zone) \<noteq> None"
  shows "\<exists>zone err m' w'. regionLoop zr zs m w = (Some (ZoneToRegionFailed zone err), m', w') \<and>
           zone \<in> set zs \<and> snd (lookup zone) = Some err"
  using assms(2)
proof (induction zs arbitrary: m w)
  case Nil
  then show ?case by simp
next
  case (Cons zone zs)
  obtain region e w' where zr: "zr zone w = ((region, e), w')"
    by (metis surj_pair)
  with assms(1) have lk: "lookup zone = (region, e)"
    by (metis fst_conv)
  show ?case
  proof (cases e)
    case (Some err)
    with zr lk show ?thesis by auto
  next
    case None
    with lk Cons.prems have "\<exists>zone\<in>set zs. snd (lookup zone) \<noteq> None" by auto
    from Cons.IH [OF this, of "m(region \<mapsto> insert zone (zonesOfRegion m region))" w']
    obtain x err m' w'' where
      "regionLoop zr zs (m(region \<mapsto> insert zone (zonesOfRegion m region))) w'
         = (Some (ZoneToRegionFailed x err), m', w'')"
      "x \<in> set zs" "snd (lookup x) = Some err"
      by blast
    with zr None show ?thesis by auto
  qed
qed

lemma calculateRegionToZonesMap_valid:
  "isRegionToZonesMapValid z \<Longrightarrow> calculateRegionToZonesMap rangeOrder z w = (None, z, w)"
  by (simp add: calculateRegionToZonesMap_def)

lemma calculateRegionToZonesMap_zones:
  assumes "\<not> isRegionToZonesMapValid z"
    and "getAllAvailableZones z w = (Inr A, z1, w1)"
  shows "calculateRegionToZonesMap rangeOrder z w =
     (case regionLoop (ZoneToRegion z) (rangeOrder A) Map.empty w1 of
        (Some err, m, w3) \<Rightarrow> (Some err, z1\<lparr>regionToZonesMap := m\<rparr>, w3)
      | (None, m, w3) \<Rightarrow> (None, z1\<lparr>regionToZonesMap := m, isRegionToZonesMapValid := True\<rparr>, w3))"
proof (cases "gotAllAvailableZones z")
  case True
  with assms show ?thesis
    by (auto simp: calculateRegionToZonesMap_def getAllAvailableZones_def
        split: prod.splits option.splits)
next
  case False
  obtain S e w' where g: "GetAllZones z w = ((S, e), w')"
    by (metis surj_pair)
  with False assms(2) have "e = None" "S = A" "w' = w1"
    "z1 = z\<lparr>allAvailableZones := A, gotAllAvailableZones := True\<rparr>"
    by (auto simp: getAllAvailableZones_def split: option.splits)
  with False assms(1) g show ?thesis
    by (auto simp: calculateRegionToZonesMap_def getAllAvailableZones_def
        split: prod.splits option.splits)
qed

lemma calculateRegionToZonesMap_no_zones:
  assumes "\<not> isRegionToZonesMapValid z"
    and "getAllAvailableZones z w = (Inl err, z1, w1)"
  shows "calculateRegionToZonesMap rangeOrder z w =
     (Some err, z1\<lparr>allAvailableZones := {}, regionToZonesMap := Map.empty\<rparr>, w1)"
proof -
  from assms(2) have ng: "\<not> gotAllAvailableZones z"
    by (auto simp: getAllAvailableZones_def)
  obtain S e w' where g: "GetAllZones z w = ((S, e), w')"
    by (metis surj_pair)
  with ng assms(2) have "e = Some err" "w' = w1" "z1 = z\<lparr>allAvailableZones := S\<rparr>"
    by (auto simp: getAllAvailableZones_def split: option.splits)
  with ng assms(1) g show ?thesis
    by (simp add: calculateRegionToZonesMap_def getAllAvailableZones_def)
qed

lemma calculateRegionToZonesMap_flag:
  "calculateRegionToZonesMap rangeOrder z w = (r, z', w') \<Longrightarrow>
   isRegionToZonesMapValid z' = (r = None)"
proof (cases "isRegionToZonesMapValid z")
  case True
  assume "calculateRegionToZonesMap rangeOrder z w = (r, z', w')"
  with True show ?thesis by (auto simp: calculateRegionToZonesMap_valid)
next
  case False
  assume c: "calculateRegionToZonesMap rangeOrder z w = (r, z', w')"
  obtain g z1 w1 where ga: "getAllAvailableZones z w = (g, z1, w1)"
    by (metis surj_pair)
  have v1: "\<not> isRegionToZonesMapValid z1"
    using ga False by (auto simp: getAllAvailableZones_def split: if_splits prod.splits option.splits)
  show ?thesis
  proof (cases g)
    case (Inl err)
    with c ga False v1 show ?thesis
      by (auto simp: calculateRegionToZonesMap_no_zones)
  next
    case (Inr A)
    with c ga False v1 show ?thesis
      using regionLoop_cases [of "ZoneToRegion z" "rangeOrder A" Map.empty w1]
      by (auto simp: calculateRegionToZonesMap_zones)
  qed
qed

lemma calculateRegionToZonesMap_from_scratch:
  "\<not> isRegionToZonesMapValid z \<Longrightarrow>
   calculateRegionToZonesMap rangeOrder (z\<lparr>regionToZonesMap := m\<rparr>) w
     = calculateRegionToZonesMap rangeOrder (z\<lparr>regionToZonesMap := Map.empty\<rparr>) w"
  by (simp add: calculateRegionToZonesMap_def)

lemma regionToZones_valid:
  "isRegionToZonesMapValid z \<Longrightarrow>
   regionToZones rangeOrder z region w = (Inr (zonesOfRegion (regionToZonesMap z) region), z, w)"
  by (simp add: regionToZones_def)

lemma regionToZones_Inr:
  assumes "regionToZones rangeOrder z region w = (Inr zones, z1, w1)"
  shows "isRegionToZonesMapValid z1 \<and> zones = zonesOfRegion (regionToZonesMap z1) region"
proof (cases "isRegionToZonesMapValid z")
  case True
  with assms show ?thesis by (auto simp: regionToZones_valid)
next
  case False
  obtain r z' w' where c: "calculateRegionToZonesMap rangeOrder z w = (r, z', w')"
    by (metis surj_pair)
  with False assms have "r = None" "z' = z1" "zones = zonesOfRegion (regionToZonesMap z1) region"
    by (auto simp: regionToZones_def split: option.splits)
  with c calculateRegionToZonesMap_flag [OF c] show ?thesis by simp
qed

lemma regionToZones_Inl:
  assumes "regionToZones rangeOrder z region w = (Inl err, z1, w1)"
  shows "\<not> isRegionToZonesMapValid z1"
proof (cases "isRegionToZonesMapValid z")
  case True
  with assms show ?thesis by (auto simp: regionToZones_valid)
next
  case False
  obtain r z' w' where c: "calculateRegionToZonesMap rangeOrder z w = (r, z', w')"
    by (metis surj_pair)
  with False assms have "r = Some err" "z' = z1"
    by (auto simp: regionToZones_def split: option.splits)
  with c calculateRegionToZonesMap_flag [OF c] show ?thesis by simp
qed

lemma zones_List_abcd:
  "sorted_list_of_set {''a'', ''b'', ''c'', ''d''} = [''a'', ''b'', ''c'', ''d'']"
  by code_simp

lemma exampleConf_regionLoop:
  "regionLoop (\<lambda>zone w. ((exampleRegion zone, None), Suc w)) [''a'', ''b'', ''c'', ''d''] Map.empty w
     = (None, exampleIndex, Suc (Suc (Suc (Suc w))))"
proof -
  have "(Map.empty(''r1'' \<mapsto> {''a''}, ''r1'' \<mapsto> {''b'', ''a''}, ''r2'' \<mapsto> {''c''}, ''r2'' \<mapsto> {''d'', ''c''}))
      = exampleIndex"
    by (auto simp: exampleIndex_def)
  then show ?thesis
    by (simp add: exampleRegion_def zonesOfRegion_upd zonesOfRegion_empty)
qed

lemma exampleConf_regionToZones:
  "regionToZones sorted_list_of_set (exampleConf sel) ''r1'' 0
     = (Inr {''a'', ''b''}, exampleIndexedConf sel, 4)"
  by (simp add: regionToZones_def calculateRegionToZonesMap_def getAllAvailableZones_def
      exampleConf_def exampleIndexedConf_def zones_List_abcd exampleConf_regionLoop
      zonesOfRegion_def exampleIndex_def del: regionLoop.simps)

text \<open>
  C8. Once a call of \<open>regionToZones\<close> has returned a set, a second call for the same
  region returns the same set and leaves the resolver and the world as they are; the
  world is arbitrary, so whatever the injected functions would do to it (count their
  calls, for one) has not happened. The second call does not even depend on which
  zone-to-region function is installed. The index is then marked valid, and any other
  region is read from it in the same way.
\<close>

theorem regionToZones_idempotent:
  "regionToZones rangeOrder z region w = (Inr zones, z1, w1) \<longrightarrow>
     regionToZones rangeOrder z1 region w1 = (Inr zones, z1, w1) \<and>
     regionToZones rangeOrder (z1\<lparr>ZoneToRegion := other\<rparr>) region w1
       = (Inr zones, z1\<lparr>ZoneToRegion := other\<rparr>, w1) \<and>
     isRegionToZonesMapValid z1 \<and>
     regionToZones rangeOrder z1 region' w1
       = (Inr (zonesOfRegion (regionToZonesMap z1) region'), z1, w1)"
proof
  assume "regionToZones rangeOrder z region w = (Inr zones, z1, w1)"
  from regionToZones_Inr [OF this]
  have v: "isRegionToZonesMapValid z1" and s: "zones = zonesOfRegion (regionToZonesMap z1) region"
    by simp_all
  from v have v': "isRegionToZonesMapValid (z1\<lparr>ZoneToRegion := other\<rparr>)" by simp
  from v s regionToZones_valid [OF v] regionToZones_valid [OF v']
  show "regionToZones rangeOrder z1 region w1 = (Inr zones, z1, w1) \<and>
     regionToZones rangeOrder (z1\<lparr>ZoneToRegion := other\<rparr>) region w1
       = (Inr zones, z1\<lparr>ZoneToRegion := other\<rparr>, w1) \<and>
     isRegionToZonesMapValid z1 \<and>
     regionToZones rangeOrder z1 region' w1
       = (Inr (zonesOfRegion (regionToZonesMap z1) region'), z1, w1)"
    by simp
qed

theorem regionToZones_idempotent_witness:
  "regionToZones sorted_list_of_set (exampleConf None) ''r1'' 0
     = (Inr {''a'', ''b''}, exampleIndexedConf None, 4) \<and>
   regionToZones sorted_list_of_set (exampleIndexedConf None) ''r1'' 4
     = (Inr {''a'', ''b''}, exampleIndexedConf None, 4) \<and>
   regionToZones sorted_list_of_set (exampleIndexedConf None) ''r2'' 4
     = (Inr {''c'', ''d''}, exampleIndexedConf None, 4)"
proof -
  have "zonesOfRegion (regionToZonesMap (exampleIndexedConf None)) ''r2'' = {''c'', ''d''}"
    by (simp add: exampleIndexedConf_def exampleIndex_def zonesOfRegion_def)
  with exampleConf_regionToZones [of None]
    regionToZones_idempotent [of sorted_list_of_set "exampleConf None" "''r1''" 0
      "{''a'', ''b''}" "exampleIndexedConf None" 4 undefined "''r2''"]
  show ?thesis by simp
qed

text \<open>
  C7. Let the index be not yet valid and let the zones be available (listed now or
  cached), visited by the loop in an order that covers them.

  Whatever the injected functions do: if the call fails, the index stays marked
  not valid, and a later build does not depend on what the failed one left in the
  index (it starts again from the empty index); and on a valid index a region with no
  entry is the empty set with a nil error, the resolver and the world unchanged.

  When the zone-to-region function answers each zone by \<open>lookup\<close> (it may still change
  the world): if it finds a region for every zone, the call marks the index valid,
  the index holds for each region exactly the available zones of that region, and the
  call returns those of the region asked for, the empty set if there is none; if it
  fails on some zone, the call returns the failure of one such zone.
\<close>

theorem regionToZones_builds_index:
  assumes "\<not> isRegionToZonesMapValid z"
    and "getAllAvailableZones z w = (Inr A, z1, w1)"
    and "set (rangeOrder A) = A"
    and "regionToZones rangeOrder z region w = (result, z', w')"
  shows "((\<exists>err. result = Inl err) \<longrightarrow>
            \<not> isRegionToZonesMapValid z' \<and>
            calculateRegionToZonesMap rangeOrder (z'\<lparr>regionToZonesMap := m\<rparr>) wl
              = calculateRegionToZonesMap rangeOrder (z'\<lparr>regionToZonesMap := Map.empty\<rparr>) wl) \<and>
         (isRegionToZonesMapValid zi \<and> regionToZonesMap zi regioni = None \<longrightarrow>
            regionToZones rangeOrder zi regioni wi = (Inr {}, zi, wi)) \<and>
         ((\<forall>zone w. fst (ZoneToRegion z zone w) = lookup zone) \<and>
          (\<forall>zone\<in>A. snd (lookup zone) = None) \<longrightarrow>
            result = Inr {zone \<in> A. fst (lookup zone) = region} \<and>
            isRegionToZonesMapValid z' \<and>
            (\<forall>r. zonesOfRegion (regionToZonesMap z') r = {zone \<in> A. fst (lookup zone) = r}) \<and>
            ((\<forall>zone\<in>A. fst (lookup zone) \<noteq> region) \<longrightarrow> result = Inr {})) \<and>
         ((\<forall>zone w. fst (ZoneToRegion z zone w) = lookup zone) \<and>
          (\<exists>zone\<in>A. snd (lookup zone) \<noteq> None) \<longrightarrow>
            (\<exists>zone err. result = Inl (ZoneToRegionFailed zone err) \<and> zone \<in> A \<and>
                        snd (lookup zone) = Some err))"
proof -
  have calc: "calculateRegionToZonesMap rangeOrder z w =
     (case regionLoop (ZoneToRegion z) (rangeOrder A) Map.empty w1 of
        (Some err, m, w3) \<Rightarrow> (Some err, z1\<lparr>regionToZonesMap := m\<rparr>, w3)
      | (None, m, w3) \<Rightarrow> (None, z1\<lparr>regionToZonesMap := m, isRegionToZonesMapValid := True\<rparr>, w3))"
    using assms(1,2) by (rule calculateRegionToZonesMap_zones)
  have g1: "(\<exists>err. result = Inl err) \<longrightarrow>
            \<not> isRegionToZonesMapValid z' \<and>
            calculateRegionToZonesMap rangeOrder (z'\<lparr>regionToZonesMap := m\<rparr>) wl
              = calculateRegionToZonesMap rangeOrder (z'\<lparr>regionToZonesMap := Map.empty\<rparr>) wl"
  proof (intro impI)
    assume "\<exists>err. result = Inl err"
    then obtain err where "result = Inl err" ..
    with assms(4) have "regionToZones rangeOrder z region w = (Inl err, z', w')" by simp
    then have nv: "\<not> isRegionToZonesMapValid z'" by (rule regionToZones_Inl)
    from nv calculateRegionToZonesMap_from_scratch [OF nv, of rangeOrder m wl]
    show "\<not> isRegionToZonesMapValid z' \<and>
            calculateRegionToZonesMap rangeOrder (z'\<lparr>regionToZonesMap := m\<rparr>) wl
              = calculateRegionToZonesMap rangeOrder (z'\<lparr>regionToZonesMap := Map.empty\<rparr>) wl"
      by simp
  qed
  have g2: "isRegionToZonesMapValid zi \<and> regionToZonesMap zi regioni = None \<longrightarrow>
            regionToZones rangeOrder zi regioni wi = (Inr {}, zi, wi)"
    by (simp add: regionToZones_valid zonesOfRegion_def)
  have p1: "result = Inr {zone \<in> A. fst (lookup zone) = region} \<and>
            isRegionToZonesMapValid z' \<and>
            (\<forall>r. zonesOfRegion (regionToZonesMap z') r = {zone \<in> A. fst (lookup zone) = r}) \<and>
            ((\<forall>zone\<in>A. fst (lookup zone) \<noteq> region) \<longrightarrow> result = Inr {})"
    if pure: "\<forall>zone w. fst (ZoneToRegion z zone w) = lookup zone"
      and found: "\<forall>zone\<in>A. snd (lookup zone) = None"
  proof -
    from found assms(3) have "\<forall>zone\<in>set (rangeOrder A). snd (lookup zone) = None" by simp
    from regionLoop_all_found [OF pure this, of Map.empty w1]
    obtain m' w'' where
      run: "regionLoop (ZoneToRegion z) (rangeOrder A) Map.empty w1 = (None, m', w'')"
      and idx: "\<forall>r. zonesOfRegion m' r = {zone \<in> A. fst (lookup zone) = r}"
      using assms(3) by (auto simp: zonesOfRegion_empty)
    from calc run have "calculateRegionToZonesMap rangeOrder z w
        = (None, z1\<lparr>regionToZonesMap := m', isRegionToZonesMapValid := True\<rparr>, w'')"
      by simp
    with assms(1,4) have "result = Inr (zonesOfRegion m' region)"
      "z' = z1\<lparr>regionToZonesMap := m', isRegionToZonesMapValid := True\<rparr>"
      by (auto simp: regionToZones_def)
    with idx show ?thesis by auto
  qed
  have p2: "\<exists>zone err. result = Inl (ZoneToRegionFailed zone err) \<and> zone \<in> A \<and>
                        snd (lookup zone) = Some err"
    if pure: "\<forall>zone w. fst (ZoneToRegion z zone w) = lookup zone"
      and missing: "\<exists>zone\<in>A. snd (lookup zone) \<noteq> None"
  proof -
    from missing assms(3) have "\<exists>zone\<in>set (rangeOrder A). snd (lookup zone) \<noteq> None" by simp
    from regionLoop_some_missing [OF pure this, of Map.empty w1]
    obtain x err m' w'' where
      run: "regionLoop (ZoneToRegion z) (rangeOrder A) Map.empty w1
              = (Some (ZoneToRegionFailed x err), m', w'')"
      and x: "x \<in> A" "snd (lookup x) = Some err"
      using assms(3) by auto
    from calc run have "calculateRegionToZonesMap rangeOrder z w
        = (Some (ZoneToRegionFailed x err), z1\<lparr>regionToZonesMap := m'\<rparr>, w'')"
      by simp
    with assms(1,4) have "result = Inl (ZoneToRegionFailed x err)"
      by (auto simp: regionToZones_def)
    with x show ?thesis by blast
  qed
  from g1 g2 p1 p2 show ?thesis by blast
qed

lemma unmappedZoneConf_regionLoop:
  "regionLoop (\<lambda>zone w. (if zone = ''c'' then ([], Some (External ''no region''))
                            else (exampleRegion zone, None), Suc w))
     [''a'', ''b'', ''c'', ''d''] Map.empty w
     = (Some (ZoneToRegionFailed ''c'' (External ''no region'')), [''r1'' \<mapsto> {''a'', ''b''}],
        Suc (Suc (Suc w)))"
proof -
  have "(Map.empty(''r1'' \<mapsto> {''a''}, ''r1'' \<mapsto> {''b'', ''a''})) = [''r1'' \<mapsto> {''a'', ''b''}]"
    by auto
  then show ?thesis
    by (simp add: exampleRegion_def zonesOfRegion_upd zonesOfRegion_empty)
qed

lemma unmappedZoneConf_regionToZones:
  "regionToZones sorted_list_of_set unmappedZoneConf region 0
     = (Inl (ZoneToRegionFailed ''c'' (External ''no region'')),
        unmappedZoneConf\<lparr>gotAllAvailableZones := True,
                         allAvailableZones := {''a'', ''b'', ''c'', ''d''},
                         regionToZonesMap := [''r1'' \<mapsto> {''a'', ''b''}]\<rparr>, 3)"
  by (simp add: regionToZones_def calculateRegionToZonesMap_def getAllAvailableZones_def
      unmappedZoneConf_def exampleConf_def zones_List_abcd unmappedZoneConf_regionLoop
      del: regionLoop.simps)

lemma exampleConf_regionToZones_r3:
  "regionToZones sorted_list_of_set (exampleConf sel) ''r3'' 0
     = (Inr {}, exampleIndexedConf sel, 4)"
  by (simp add: regionToZones_def calculateRegionToZonesMap_def getAllAvailableZones_def
      exampleConf_def exampleIndexedConf_def zones_List_abcd exampleConf_regionLoop
      zonesOfRegion_def exampleIndex_def del: regionLoop.simps)

theorem regionToZones_builds_index_witness:
  "\<not> isRegionToZonesMapValid (exampleConf None) \<and>
   getAllAvailableZones (exampleConf None) 0
     = (Inr {''a'', ''b'', ''c'', ''d''},
        (exampleConf None)\<lparr>allAvailableZones := {''a'', ''b'', ''c'', ''d''},
                            gotAllAvailableZones := True\<rparr>, 0) \<and>
   set (sorted_list_of_set {''a'', ''b'', ''c'', ''d''}) = {''a'', ''b'', ''c'', ''d''} \<and>
   regionToZones sorted_list_of_set (exampleConf None) ''r1'' 0
     = (Inr {''a'', ''b''}, exampleIndexedConf None, 4) \<and>
   {zone \<in> {''a'', ''b'', ''c'', ''d''}. exampleRegion zone = ''r1''} = {''a'', ''b''} \<and>
   isRegionToZonesMapValid (exampleIndexedConf None) \<and>
   zonesOfRegion (regionToZonesMap (exampleIndexedConf None)) ''r2''
     = {zone \<in> {''a'', ''b'', ''c'', ''d''}. exampleRegion zone = ''r2''} \<and>
   regionToZones sorted_list_of_set (exampleConf None) ''r3'' 0
     = (Inr {}, exampleIndexedConf None, 4) \<and>
   \<not> isRegionToZonesMapValid unmappedZoneConf \<and>
   regionToZones sorted_list_of_set unmappedZoneConf ''r1'' 0
     = (Inl (ZoneToRegionFailed ''c'' (External ''no region'')),
        unmappedZoneConf\<lparr>gotAllAvailableZones := True,
                         allAvailableZones := {''a'', ''b'', ''c'', ''d''},
                         regionToZonesMap := [''r1'' \<mapsto> {''a'', ''b''}]\<rparr>, 3) \<and>
   \<not> isRegionToZonesMapValid
       (unmappedZoneConf\<lparr>gotAllAvailableZones := True,
                         allAvailableZones := {''a'', ''b'', ''c'', ''d''},
                         regionToZonesMap := [''r1'' \<mapsto> {''a'', ''b''}]\<rparr>)"
proof -
  let ?A = "{''a'', ''b'', ''c'', ''d''}"
  let ?lookup = "\<lambda>zone. (exampleRegion zone, None :: error option)"
  let ?lookup' = "\<lambda>zone. if zone = ''c'' then ([], Some (External ''no region''))
                          else (exampleRegion zone, None)"
  have nv: "\<not> isRegionToZonesMapValid (exampleConf None)"
    by (simp add: exampleConf_def)
  have ga: "getAllAvailableZones (exampleConf None) 0
     = (Inr ?A, (exampleConf None)\<lparr>allAvailableZones := ?A, gotAllAvailableZones := True\<rparr>, 0)"
    by (simp add: getAllAvailableZones_def exampleConf_def)
  have ord: "set (sorted_list_of_set ?A) = ?A"
    by (simp add: zones_List_abcd)
  have pure: "\<forall>zone w. fst (ZoneToRegion (exampleConf None) zone w) = ?lookup zone"
    by (simp add: exampleConf_def)
  have found: "\<forall>zone\<in>?A. snd (?lookup zone) = None"
    by simp
  have r1: "{zone \<in> ?A. exampleRegion zone = ''r1''} = {''a'', ''b''}"
    by (auto simp: exampleRegion_def)
  have nv': "\<not> isRegionToZonesMapValid unmappedZoneConf"
    by (simp add: unmappedZoneConf_def exampleConf_def)
  have ga': "getAllAvailableZones unmappedZoneConf 0
     = (Inr ?A, unmappedZoneConf\<lparr>allAvailableZones := ?A, gotAllAvailableZones := True\<rparr>, 0)"
    by (simp add: getAllAvailableZones_def unmappedZoneConf_def exampleConf_def)
  have pure': "\<forall>zone w. fst (ZoneToRegion unmappedZoneConf zone w) = ?lookup' zone"
    by (simp add: unmappedZoneConf_def exampleConf_def)
  have missing: "\<exists>zone\<in>?A. snd (?lookup' zone) \<noteq> None"
    by simp
  from regionToZones_builds_index [OF nv ga ord exampleConf_regionToZones [of None],
      where lookup = ?lookup and zi = "exampleConf None" and regioni = "[]" and wi = 0
        and m = Map.empty and wl = 0] pure found
  have a: "isRegionToZonesMapValid (exampleIndexedConf None)"
    and b: "zonesOfRegion (regionToZonesMap (exampleIndexedConf None)) ''r2''
             = {zone \<in> ?A. exampleRegion zone = ''r2''}"
    by simp_all
  from regionToZones_builds_index [OF nv' ga' ord unmappedZoneConf_regionToZones [of "''r1''"],
      where lookup = ?lookup' and zi = "exampleConf None" and regioni = "[]" and wi = 0
        and m = Map.empty and wl = 0] pure' missing
  have c: "\<not> isRegionToZonesMapValid
       (unmappedZoneConf\<lparr>gotAllAvailableZones := True, allAvailableZones := ?A,
                         regionToZonesMap := [''r1'' \<mapsto> {''a'', ''b''}]\<rparr>)"
    by simp
  from nv ga ord exampleConf_regionToZones [of None] r1 a b exampleConf_regionToZones_r3 [of None]
    nv' unmappedZoneConf_regionToZones [of "''r1''"] c
  show ?thesis by (intro conjI)
qed


subsection \<open>GetConfZones\<close>

lemma calculateRegionToZonesMap_resultingZones:
  "calculateRegionToZonesMap rangeOrder (z\<lparr>resultingZones := R\<rparr>) w =
     (case calculateRegionToZonesMap rangeOrder z w of
        (r, z', w') \<Rightarrow> (r, z'\<lparr>resultingZones := R\<rparr>, w'))"
  by (auto simp: calculateRegionToZonesMap_def getAllAvailableZones_def Let_def
      split: prod.splits option.splits sum.splits)

lemma calculateRegionToZonesMap_frame:
  "calculateRegionToZonesMap rangeOrder z w = (r, z', w') \<Longrightarrow>
   PVC z' = PVC z \<and> resultingZones z' = resultingZones z"
  by (auto simp: calculateRegionToZonesMap_def getAllAvailableZones_def Let_def
      split: prod.splits option.splits sum.splits if_splits)

lemma regionToZones_calculate:
  "regionToZones rangeOrder z region w =
     (case calculateRegionToZonesMap rangeOrder z w of
        (Some err, z', w') \<Rightarrow> (Inl err, z', w')
      | (None, z', w') \<Rightarrow> (Inr (zonesOfRegion (regionToZonesMap z') region), z', w'))"
  by (simp add: regionToZones_def calculateRegionToZonesMap_valid)

lemma validated_filter:
  "validateMatchExpressions es = None \<Longrightarrow>
   filter (matchesExpression k operator) es = filter (\<lambda>e. Key e = k \<and> Operator e = operator) es"
  by (induction es) (auto simp: matchesExpression_def split: if_splits)

lemma getPVCMatchExpression_validated:
  assumes "Selector pvc = Some sel" and "validateMatchExpressions (MatchExpressions sel) = None"
  shows "getPVCMatchExpression pvc k operator =
     (if expressionSets sel k operator = []
      then Inl (if MatchExpressions sel = [] then EmptyMatchExpressions else OperatorNotFound k operator)
      else Inr (expressionSets sel k operator))"
  using assms validated_filter [OF assms(2), of k operator]
  by (auto simp: getPVCMatchExpression_def expressionSets_def Let_def)

lemma getPVCMatchLabel_Some:
  "Selector pvc = Some sel \<Longrightarrow>
   getPVCMatchLabel pvc k =
     (case map_of (MatchLabels sel) k of Some v \<Rightarrow> Inr v | None \<Rightarrow> Inl (LabelKeyNotFound k))"
  by (simp add: getPVCMatchLabel_def)


lemma matchLabelZoneBlock_eq:
  "Selector (PVC z) = Some sel \<Longrightarrow>
   matchLabelZoneBlock z =
     z\<lparr>resultingZones :=
         (case map_of (MatchLabels sel) LabelZoneFailureDomain of
            Some zone \<Rightarrow> resultingZones z \<inter> {zone}
          | None \<Rightarrow> resultingZones z)\<rparr>"
  by (simp add: matchLabelZoneBlock_def getPVCMatchLabel_Some split: option.splits)

lemma matchLabelRegionBlock_eq:
  "Selector (PVC z) = Some sel \<Longrightarrow>
   matchLabelRegionBlock rangeOrder z w =
     (case map_of (MatchLabels sel) LabelZoneRegion of
        None \<Rightarrow> (None, z, w)
      | Some region \<Rightarrow>
          (case calculateRegionToZonesMap rangeOrder z w of
             (Some err, z', w') \<Rightarrow> (Some err, z', w')
           | (None, z', w') \<Rightarrow>
               (None, z'\<lparr>resultingZones :=
                            resultingZones z' \<inter> zonesOfRegion (regionToZonesMap z') region\<rparr>, w')))"
  by (simp add: matchLabelRegionBlock_def getPVCMatchLabel_Some regionToZones_calculate
      split: option.splits prod.splits)

lemma inZonesBlock_eq:
  "Selector (PVC z) = Some sel \<Longrightarrow> validateMatchExpressions (MatchExpressions sel) = None \<Longrightarrow>
   inZonesBlock z =
     z\<lparr>resultingZones :=
         fold (\<lambda>values s. s \<inter> values)
           (expressionSets sel LabelZoneFailureDomain LabelSelectorOpIn) (resultingZones z)\<rparr>"
  by (simp add: inZonesBlock_def getPVCMatchExpression_validated)

lemma notInZonesBlock_eq:
  "Selector (PVC z) = Some sel \<Longrightarrow> validateMatchExpressions (MatchExpressions sel) = None \<Longrightarrow>
   notInZonesBlock z =
     z\<lparr>resultingZones :=
         fold (\<lambda>values s. s - values)
           (expressionSets sel LabelZoneFailureDomain LabelSelectorOpNotIn) (resultingZones z)\<rparr>"
  by (simp add: notInZonesBlock_def getPVCMatchExpression_validated)

lemma inRegionsBlock_eq:
  "Selector (PVC z) = Some sel \<Longrightarrow> validateMatchExpressions (MatchExpressions sel) = None \<Longrightarrow>
   inRegionsBlock rangeOrder z w =
     (if expressionSets sel LabelZoneRegion LabelSelectorOpIn = [] then (None, z, w)
      else (case calculateRegionToZonesMap rangeOrder z w of
              (Some err, z', w') \<Rightarrow> (Some err, z', w')
            | (None, z', w') \<Rightarrow>
                (None,
                 z'\<lparr>resultingZones :=
                      fold (\<lambda>regions s. s \<inter> (\<Union>region\<in>regions. zonesOfRegion (regionToZonesMap z') region))
                        (expressionSets sel LabelZoneRegion LabelSelectorOpIn) (resultingZones z')\<rparr>,
                 w')))"
  by (simp add: inRegionsBlock_def getPVCMatchExpression_validated summedZones_def
      calculateRegionToZonesMap_valid split: prod.splits option.splits)

lemma notInRegionsBlock_eq:
  "Selector (PVC z) = Some sel \<Longrightarrow> validateMatchExpressions (MatchExpressions sel) = None \<Longrightarrow>
   notInRegionsBlock rangeOrder z w =
     (if expressionSets sel LabelZoneRegion LabelSelectorOpNotIn = [] then (None, z, w)
      else (case calculateRegionToZonesMap rangeOrder z w of
              (Some err, z', w') \<Rightarrow> (Some err, z', w')
            | (None, z', w') \<Rightarrow>
                (None,
                 z'\<lparr>resultingZones :=
                      fold (\<lambda>regions s. s - (\<Union>region\<in>regions. zonesOfRegion (regionToZonesMap z') region))
                        (expressionSets sel LabelZoneRegion LabelSelectorOpNotIn) (resultingZones z')\<rparr>,
                 w')))"
  by (simp add: notInRegionsBlock_def getPVCMatchExpression_validated summedZones_def
      calculateRegionToZonesMap_valid split: prod.splits option.splits)


lemma selectorBlocks_spec:
  assumes sel: "Selector (PVC z) = Some sel"
    and val: "validateMatchExpressions (MatchExpressions sel) = None"
  shows "fst (selectorBlocks rangeOrder (z\<lparr>resultingZones := R\<rparr>) w) =
     (case (if spec_namesRegion sel then calculateRegionToZonesMap rangeOrder z w
            else (None, z, w)) of
        (Some err, z2, w2) \<Rightarrow> Inl err
      | (None, z2, w2) \<Rightarrow>
          (let result = spec_passes sel (zonesOfRegion (regionToZonesMap z2)) R
           in if result = {} then Inl CannotSatisfy else Inr result))"
proof -
  obtain r z2 w2 where c: "calculateRegionToZonesMap rangeOrder z w = (r, z2, w2)"
    by (metis surj_pair)
  from calculateRegionToZonesMap_frame [OF c] sel have sel2: "Selector (PVC z2) = Some sel"
    by simp
  have c1: "calculateRegionToZonesMap rangeOrder (z\<lparr>resultingZones := R'\<rparr>) w
              = (r, z2\<lparr>resultingZones := R'\<rparr>, w2)" for R'
    by (simp add: calculateRegionToZonesMap_resultingZones c)
  show ?thesis
  proof (cases r)
    case (Some err)
    with c c1 sel val show ?thesis
      by (simp add: selectorBlocks_def matchLabelZoneBlock_eq matchLabelRegionBlock_eq
          inZonesBlock_eq inRegionsBlock_eq notInZonesBlock_eq notInRegionsBlock_eq
          spec_namesRegion_def spec_passes_def Let_def
          split: option.splits)
  next
    case None
    with calculateRegionToZonesMap_flag [OF c] have v: "isRegionToZonesMapValid z2" by simp
    have c2: "calculateRegionToZonesMap rangeOrder (z2\<lparr>resultingZones := R'\<rparr>) w2
              = (None, z2\<lparr>resultingZones := R'\<rparr>, w2)" for R'
      using v by (simp add: calculateRegionToZonesMap_valid)
    from None c c1 c2 sel sel2 val show ?thesis
      by (simp add: selectorBlocks_def matchLabelZoneBlock_eq matchLabelRegionBlock_eq
          inZonesBlock_eq inRegionsBlock_eq notInZonesBlock_eq notInRegionsBlock_eq
          spec_namesRegion_def spec_passes_def Let_def
          split: option.splits)
  qed
qed


lemma validatePVCSelector_nonempty:
  "validatePVCSelector pvc = (False, None) \<Longrightarrow>
   \<exists>sel. Selector pvc = Some sel \<and> validateMatchExpressions (MatchExpressions sel) = None"
  by (auto simp: validatePVCSelector_def split: option.splits if_splits)

lemma getAllAvailableZones_PVC:
  "getAllAvailableZones z w = (g, z', w') \<Longrightarrow> PVC z' = PVC z"
  by (auto simp: getAllAvailableZones_def split: if_splits prod.splits option.splits)

lemma GetConfZones_after_start:
  assumes "PVC z1 = PVC z"
  shows "fst (case validatePVCSelector (PVC (z1\<lparr>resultingZones := working\<rparr>)) of
             (emptySelector, Some err) \<Rightarrow> (Inl err, z1\<lparr>resultingZones := working\<rparr>, w1)
           | (emptySelector, None) \<Rightarrow>
               if emptySelector then (Inr (resultingZones (z1\<lparr>resultingZones := working\<rparr>)),
                                      z1\<lparr>resultingZones := working\<rparr>, w1)
               else selectorBlocks rangeOrder (z1\<lparr>resultingZones := working\<rparr>) w1) =
         (case validatePVCSelector (PVC z) of
             (emptySelector, Some err) \<Rightarrow> Inl err
           | (emptySelector, None) \<Rightarrow>
               (case Selector (PVC z) of
                  None \<Rightarrow> Inr working
                | Some sel \<Rightarrow>
                    if emptySelector then Inr working
                    else (case (if spec_namesRegion sel
                                then calculateRegionToZonesMap rangeOrder z1 w1
                                else (None, z1, w1)) of
                            (Some err, z2, w2) \<Rightarrow> Inl err
                          | (None, z2, w2) \<Rightarrow>
                              (let result = spec_passes sel (zonesOfRegion (regionToZonesMap z2)) working
                               in if result = {} then Inl CannotSatisfy else Inr result))))"
proof -
  obtain b e where v: "validatePVCSelector (PVC z) = (b, e)"
    by (metis surj_pair)
  show ?thesis
  proof (cases e)
    case (Some err)
    with v assms show ?thesis by simp
  next
    case None
    show ?thesis
    proof (cases b)
      case True
      with v None assms show ?thesis by (simp split: option.splits)
    next
      case False
      with v None validatePVCSelector_nonempty [of "PVC z"]
      obtain sel where sel: "Selector (PVC z) = Some sel"
        and val: "validateMatchExpressions (MatchExpressions sel) = None"
        by auto
      from sel assms have "Selector (PVC z1) = Some sel" by simp
      from selectorBlocks_spec [OF this val, of rangeOrder working w1] v None False sel assms
      show ?thesis by simp
    qed
  qed
qed

text \<open>
  C1. The result of \<open>GetConfZones\<close> is the one the specification's passes give, in
  their order: the working set starts as the resulting zones of the override if one
  is configured and as the (cached) list of all zones otherwise; a selector that does
  not validate is an error; an empty selector returns the working set unchanged;
  otherwise the zone of the labels, the region of the labels, each In expression on
  the zone, each In expression on the region (the zones of its regions united), each
  NotIn expression on the zone and each NotIn expression on the region are applied
  one after the other, and the result is returned, or the error if it is empty. The
  region index is built at most once, when the selector names a region, and its
  failure is the result.
\<close>

theorem GetConfZones_passes_in_order:
  "fst (GetConfZones rangeOrder z w) = spec_resolve rangeOrder z w"
proof (cases "isSCZoneConfigured z \<or> isSCZonesConfigured z")
  case True
  then have s: "startingZones z w = (None, z, w)"
    by (auto simp: startingZones_def)
  have e: "z\<lparr>resultingZones := resultingZones z\<rparr> = z" by simp
  from GetConfZones_after_start [of z z "resultingZones z" w rangeOrder, unfolded e] True s
  show ?thesis
    by (simp add: GetConfZones_def spec_resolve_def)
next
  case False
  obtain g z1 w1 where ga: "getAllAvailableZones z w = (g, z1, w1)"
    by (metis surj_pair)
  show ?thesis
  proof (cases g)
    case (Inl err)
    with False ga show ?thesis
      by (simp add: GetConfZones_def spec_resolve_def startingZones_def)
  next
    case (Inr working)
    with False ga have s: "startingZones z w = (None, z1\<lparr>resultingZones := working\<rparr>, w1)"
      by (simp add: startingZones_def)
    from GetConfZones_after_start [OF getAllAvailableZones_PVC [OF ga], of working w1 rangeOrder]
      False ga Inr s
    show ?thesis
      by (simp add: GetConfZones_def spec_resolve_def)
  qed
qed

lemma label_constants_distinct:
  "LabelZoneFailureDomain \<noteq> LabelZoneRegion" "LabelZoneRegion \<noteq> LabelZoneFailureDomain"
  "LabelSelectorOpIn \<noteq> LabelSelectorOpNotIn" "LabelSelectorOpNotIn \<noteq> LabelSelectorOpIn"
  by (simp_all add: LabelZoneFailureDomain_def LabelZoneRegion_def LabelSelectorOpIn_def
      LabelSelectorOpNotIn_def)

lemma exampleConf_calculate:
  "calculateRegionToZonesMap sorted_list_of_set
     ((exampleConf sel)\<lparr>allAvailableZones := {''a'', ''b'', ''c'', ''d''},
                         gotAllAvailableZones := True, resultingZones := R\<rparr>) 0
     = (None, (exampleIndexedConf sel)\<lparr>resultingZones := R\<rparr>, 4)"
  by (simp add: calculateRegionToZonesMap_def 
      exampleConf_def exampleIndexedConf_def zones_List_abcd exampleConf_regionLoop
      del: regionLoop.simps)

lemma exampleSelector_validate:
  "validatePVCSelector \<lparr> Selector = Some exampleSelector \<rparr> = (False, None)"
  by (simp add: validatePVCSelector_def exampleSelector_def allowedKeys_def allowedOperators_def)

lemma exampleSelector_run:
  "GetConfZones sorted_list_of_set (exampleConf (Some exampleSelector)) 0
     = (Inr {''a''}, (exampleIndexedConf (Some exampleSelector))\<lparr>resultingZones := {''a''}\<rparr>, 4)"
proof -
  have s: "startingZones (exampleConf (Some exampleSelector)) 0
     = (None, (exampleConf (Some exampleSelector))\<lparr>allAvailableZones := {''a'', ''b'', ''c'', ''d''},
                         gotAllAvailableZones := True, resultingZones := {''a'', ''b'', ''c'', ''d''}\<rparr>, 0)"
    by (simp add: startingZones_def getAllAvailableZones_def exampleConf_def)
  have p: "PVC (exampleConf sel) = \<lparr> Selector = sel \<rparr>" for sel
    by (simp add: exampleConf_def)
  have pi: "PVC (exampleIndexedConf sel) = \<lparr> Selector = sel \<rparr>" for sel
    by (simp add: exampleIndexedConf_def exampleConf_def)
  have v: "isRegionToZonesMapValid (exampleIndexedConf sel)" for sel
    by (simp add: exampleIndexedConf_def)
  have m: "regionToZonesMap (exampleIndexedConf sel) = exampleIndex" for sel
    by (simp add: exampleIndexedConf_def)
  have nv: "\<not> isRegionToZonesMapValid (exampleConf sel)" for sel
    by (simp add: exampleConf_def)
  have e: "getPVCMatchExpression \<lparr> Selector = Some exampleSelector \<rparr> LabelZoneFailureDomain LabelSelectorOpIn
             = Inr [{''a'', ''b'', ''c''}]"
    "getPVCMatchExpression \<lparr> Selector = Some exampleSelector \<rparr> LabelZoneRegion LabelSelectorOpIn
             = Inr [{''r1'', ''r3''}]"
    "getPVCMatchExpression \<lparr> Selector = Some exampleSelector \<rparr> LabelZoneFailureDomain LabelSelectorOpNotIn
             = Inr [{''b''}]"
    "getPVCMatchExpression \<lparr> Selector = Some exampleSelector \<rparr> LabelZoneRegion LabelSelectorOpNotIn
             = Inl (OperatorNotFound LabelZoneRegion LabelSelectorOpNotIn)"
    by (simp_all add: getPVCMatchExpression_def exampleSelector_def matchesExpression_def
        label_constants_distinct)
  have l: "getPVCMatchLabel \<lparr> Selector = Some exampleSelector \<rparr> k = Inl (LabelKeyNotFound k)" for k
    by (simp add: getPVCMatchLabel_def exampleSelector_def)
  have z: "summedZones exampleIndex {''r1'', ''r3''} = {''a'', ''b''}"
    by (auto simp: summedZones_def zonesOfRegion_def exampleIndex_def)
  have i: "{''a'', ''b''} - {''b''} = {''a''}"
    by auto
  show ?thesis
    by (simp add: GetConfZones_def s p pi exampleSelector_validate selectorBlocks_def
        matchLabelZoneBlock_def matchLabelRegionBlock_def inZonesBlock_def inRegionsBlock_def
        notInZonesBlock_def notInRegionsBlock_def e l nv v m exampleConf_calculate z i)
qed

theorem GetConfZones_passes_in_order_witness:
  "fst (GetConfZones sorted_list_of_set (exampleConf (Some exampleSelector)) 0) = Inr {''a''} \<and>
   spec_resolve sorted_list_of_set (exampleConf (Some exampleSelector)) 0 = Inr {''a''}"
  using GetConfZones_passes_in_order [of sorted_list_of_set "exampleConf (Some exampleSelector)" 0]
    exampleSelector_run
  by simp

lemma selectorBlocks_not_empty:
  "selectorBlocks rangeOrder z w = (Inr zones, z', w') \<Longrightarrow> zones \<noteq> {}"
  by (auto simp: selectorBlocks_def split: prod.splits option.splits if_splits)

lemma GetConfZones_empty_only_for_empty_selector:
  assumes "GetConfZones rangeOrder z w = (Inr {}, z', w')"
  shows "validatePVCSelector (PVC z') = (True, None)"
proof -
  obtain r z1 w1 where s: "startingZones z w = (r, z1, w1)"
    by (metis surj_pair)
  obtain emptySelector e where v: "validatePVCSelector (PVC z1) = (emptySelector, e)"
    by (metis surj_pair)
  from assms s v have "r = None" "e = None"
    by (auto simp: GetConfZones_def split: option.splits)
  with assms s v selectorBlocks_not_empty [of rangeOrder z1 w1 "{}" z' w']
  show ?thesis
    by (auto simp: GetConfZones_def split: if_splits)
qed

text \<open>
  C2, the failing input. No override is configured, the volume claim has no selector and
  the injected list function returns the empty set and no error: \<open>GetConfZones\<close>
  returns the empty set with a nil error, through the return for an empty selector,
  which comes before the test for an empty result.
\<close>

theorem GetConfZones_empty_cluster:
  "GetConfZones rangeOrder emptyClusterConf w
     = (Inr {}, emptyClusterConf\<lparr>gotAllAvailableZones := True\<rparr>, w)"
  by (simp add: GetConfZones_def startingZones_def getAllAvailableZones_def
      validatePVCSelector_def emptyClusterConf_def exampleConf_def)


end
